theory Spec2Isabelle
  imports Main
begin

section \<open>Strings\<close>

text \<open>
  A JavaScript string is a sequence of UTF-16 code units and \<^verbatim>\<open>length\<close> counts them.
  The model uses \<^typ>\<open>string\<close>, whose characters are the code units 0..255 (Latin-1), so
  that the accented letters of the glossary are covered; on that range
  \<^verbatim>\<open>String.prototype.toLowerCase\<close> maps A..Z and the capital letters U+00C0..U+00DE
  (without the multiplication sign U+00D7) to the letter 32 places further, and
  \<^verbatim>\<open>String.prototype.trim\<close> strips TAB, LF, VT, FF, CR, SPACE and NBSP at both ends.
\<close>

definition lower_char :: "char \<Rightarrow> char" where
  "lower_char c =
     (let n = (of_char c :: nat) in
      if (65 \<le> n \<and> n \<le> 90) \<or> (192 \<le> n \<and> n \<le> 222 \<and> n \<noteq> 215)
      then char_of (n + 32) else c)"

definition toLowerCase :: "string \<Rightarrow> string" where
  "toLowerCase s = map lower_char s"

definition is_white :: "char \<Rightarrow> bool" where
  "is_white c = ((of_char c :: nat) \<in> {9, 10, 11, 12, 13, 32, 160})"

definition trim :: "string \<Rightarrow> string" where
  "trim s = rev (dropWhile is_white (rev (dropWhile is_white s)))"

text \<open>\<^verbatim>\<open>s.startsWith(q)\<close> and \<^verbatim>\<open>s.includes(q)\<close>: \<open>q\<close> occurs in \<open>s\<close> at some offset.\<close>

definition starts_with :: "string \<Rightarrow> string \<Rightarrow> bool" where
  "starts_with s q = (take (length q) s = q)"

fun str_includes :: "string \<Rightarrow> string \<Rightarrow> bool" where
  "str_includes [] q = (q = [])"
| "str_includes (c # s) q = (starts_with (c # s) q \<or> str_includes s q)"

section \<open>Data model of \<^verbatim>\<open>data/glossary.json\<close>\<close>

record card =
  card_id :: string
  es :: string
  en :: string
  def_es :: string
  def_en :: string
  img :: string

record group =
  group_id :: string
  group_title :: string
  members :: "string list"
  cards :: "card list"

record window =
  window_id :: string
  window_title :: string
  window_groups :: "string list"

text \<open>\<open>windows\<close> is optional in the JSON: \<open>None\<close> is the absent key (\<^verbatim>\<open>undefined\<close>).\<close>

record subject =
  subject_id :: string
  code :: string
  title :: string
  description :: string
  groups :: "group list"
  windows :: "window list option"

type_synonym glossary = "subject list"

section \<open>Values shared by the three variants of the app\<close>

text \<open>
  The repository holds three variants of the same script: \<^verbatim>\<open>assets/js/app.js\<close> (suffix
  \<open>_v1\<close>), and the two scripts of \<^verbatim>\<open>unnamed/part_000\<close>: the first one (suffix \<open>_v2\<close>,
  with \<^verbatim>\<open>searchGlossary\<close> and \<^verbatim>\<open>renderWindow\<close>) and the second one (suffix \<open>_v3\<close>,
  with the memoizing \<^verbatim>\<open>loadData\<close>). A function that exists in one variant only keeps
  its name.
\<close>

datatype js_error = TypeError | ReferenceError

text \<open>
  The DOM: an element has a tag, its attributes in the order they were set, and its
  children. Markup assigned through \<^verbatim>\<open>innerHTML\<close> is modelled by the tree the browser
  parses it into when the interpolated glossary fields hold no markup of their own; the
  indentation of the template literals is left out.
\<close>

datatype node = Element string "(string \<times> string) list" "node list" | Text string

fun textContent :: "node \<Rightarrow> string" where
  "textContent (Text s) = s"
| "textContent (Element tag attrs children) = concat (map textContent children)"

fun attr :: "string \<Rightarrow> node \<Rightarrow> string option" where
  "attr k (Text s) = None"
| "attr k (Element tag attrs children) = map_of attrs k"

text \<open>\<^verbatim>\<open>`${n}`\<close> for a number: its decimal digits.\<close>

fun show_nat :: "nat \<Rightarrow> string" where
  "show_nat n =
     (if n < 10 then [char_of (48 + n)] else show_nat (n div 10) @ [char_of (48 + n mod 10)])"

datatype match_type = Materia | Grupo | Tarjeta

section \<open>Search, variant 1: \<^verbatim>\<open>attachAutocomplete/handleSearch\<close> of \<^verbatim>\<open>assets/js/app.js\<close>\<close>

text \<open>
  The pushed objects \<^verbatim>\<open>{type: 'subject', data}\<close>, \<^verbatim>\<open>{type: 'group', data, subjectId}\<close> and
  \<^verbatim>\<open>{type: 'card', data, subjectId, groupId}\<close>.
\<close>

datatype item_v1 =
    SubjectItem subject
  | GroupItem group string
  | CardItem card string string

definition push_card_v1 :: "string \<Rightarrow> subject \<Rightarrow> group \<Rightarrow> item_v1 list \<Rightarrow> card \<Rightarrow> item_v1 list" where
  "push_card_v1 query subject grp results cardData =
     (if str_includes (toLowerCase (es cardData)) query \<or> str_includes (toLowerCase (en cardData)) query
      then results @ [CardItem cardData (subject_id subject) (group_id grp)]
      else results)"

definition push_group_v1 :: "string \<Rightarrow> subject \<Rightarrow> item_v1 list \<Rightarrow> group \<Rightarrow> item_v1 list" where
  "push_group_v1 query subject results grp =
     foldl (push_card_v1 query subject grp)
       (if str_includes (toLowerCase (group_title grp)) query
        then results @ [GroupItem grp (subject_id subject)]
        else results)
       (cards grp)"

definition push_subject_v1 :: "string \<Rightarrow> item_v1 list \<Rightarrow> subject \<Rightarrow> item_v1 list" where
  "push_subject_v1 query results subject =
     foldl (push_group_v1 query subject)
       (if str_includes (toLowerCase (title subject)) query
           \<or> str_includes (toLowerCase (code subject)) query
        then results @ [SubjectItem subject]
        else results)
       (groups subject)"

definition results_v1 :: "string \<Rightarrow> glossary \<Rightarrow> item_v1 list" where
  "results_v1 query glossaryData = foldl (push_subject_v1 query) [] glossaryData"

text \<open>
  \<^verbatim>\<open>[...new Map(results.map(item => [JSON.stringify(item), item])).values()]\<close>: a
  \<^verbatim>\<open>Map\<close> keeps a key at the place of its first insertion and the value of its last one.
  The key is the serialised item; \<^verbatim>\<open>JSON.stringify\<close> is injective on items of this shape,
  so the item itself stands for its key.
\<close>

fun map_set :: "('k \<times> 'v) list \<Rightarrow> 'k \<Rightarrow> 'v \<Rightarrow> ('k \<times> 'v) list" where
  "map_set [] k v = [(k, v)]"
| "map_set ((k', v') # m) k v =
     (if k' = k then (k, v) # m else (k', v') # map_set m k v)"

definition uniqueResults_v1 :: "string \<Rightarrow> glossary \<Rightarrow> item_v1 list" where
  "uniqueResults_v1 query glossaryData =
     map snd (foldl (\<lambda>m item. map_set m item item) [] (results_v1 query glossaryData))"

text \<open>What the map holds while it is filled: each key once, each value its own key.\<close>

definition dedupe_inv :: "('a \<times> 'a) list \<Rightarrow> bool" where
  "dedupe_inv m = (distinct (map fst m) \<and> (\<forall>(k, v) \<in> set m. k = v))"

text \<open>
  The text of a list entry, \<^verbatim>\<open>item.data.title || item.data.es || item.data.en\<close>: an empty
  or absent field is falsy; when all are, \<^verbatim>\<open>createEl\<close> sets no text.
\<close>

fun display_v1 :: "item_v1 \<Rightarrow> string" where
  "display_v1 (SubjectItem s) = title s"
| "display_v1 (GroupItem g sid) = group_title g"
| "display_v1 (CardItem c sid gid) = (if es c \<noteq> [] then es c else en c)"

text \<open>\<^verbatim>\<open>createEl\<close> of variant 1: falsy \<^verbatim>\<open>className\<close>, \<^verbatim>\<open>id\<close> and \<^verbatim>\<open>textContent\<close> are skipped.\<close>

definition createEl_v1 ::
  "string \<Rightarrow> string \<Rightarrow> string \<Rightarrow> string \<Rightarrow> (string \<times> string) list \<Rightarrow> node list \<Rightarrow> node" where
  "createEl_v1 tag className ident txt attributes children =
     Element tag
       ((if className \<noteq> [] then [(''class'', className)] else [])
        @ (if ident \<noteq> [] then [(''id'', ident)] else [])
        @ attributes)
       ((if txt \<noteq> [] then [Text txt] else []) @ children)"

record autocomplete_v1 =
  list_children_v1 :: "node list"
  list_hidden_v1 :: bool
  input_expanded_v1 :: "string option"

definition listItem_v1 :: "item_v1 \<Rightarrow> node" where
  "listItem_v1 item =
     createEl_v1 ''li'' ''autocomplete__item'' [] (display_v1 item) [(''role'', ''option'')] []"

text \<open>The body of the debounced handler; \<open>v\<close> is \<^verbatim>\<open>input.value\<close>.\<close>

definition handleSearch_v1 :: "string \<Rightarrow> glossary \<Rightarrow> autocomplete_v1 \<Rightarrow> autocomplete_v1" where
  "handleSearch_v1 v glossaryData ui =
     (let query = toLowerCase v in
      if length query = 0
      then ui\<lparr>list_children_v1 := [], list_hidden_v1 := True\<rparr>
      else
        let uniqueResults = uniqueResults_v1 query glossaryData in
        if length uniqueResults > 0
        then ui\<lparr>list_children_v1 := map listItem_v1 uniqueResults,
                 list_hidden_v1 := False, input_expanded_v1 := Some ''true''\<rparr>
        else ui\<lparr>list_children_v1 := [], list_hidden_v1 := True,
                 input_expanded_v1 := Some ''false''\<rparr>)"

section \<open>Search, variant 2: \<^verbatim>\<open>searchGlossary\<close>, \<^verbatim>\<open>updateAutocompleteList\<close>, \<^verbatim>\<open>debouncedSearch\<close>\<close>

record result_v2 =
  r2_type :: match_type
  r2_id :: string
  r2_text :: string

definition push_card_v2 :: "string \<Rightarrow> subject \<Rightarrow> result_v2 list \<Rightarrow> card \<Rightarrow> result_v2 list" where
  "push_card_v2 lowerQuery materia results cardData =
     (if str_includes (toLowerCase (es cardData)) lowerQuery
         \<or> str_includes (toLowerCase (en cardData)) lowerQuery
      then results @ [\<lparr>r2_type = Tarjeta, r2_id = subject_id materia,
             r2_text = ''T'' @ [CHR 0xE9] @ ''rmino: '' @ [CHR 0x22] @ es cardData @ [CHR 0x22]
                       @ '' en '' @ code materia\<rparr>]
      else results)"

definition push_group_v2 :: "string \<Rightarrow> subject \<Rightarrow> result_v2 list \<Rightarrow> group \<Rightarrow> result_v2 list" where
  "push_group_v2 lowerQuery materia results grp =
     foldl (push_card_v2 lowerQuery materia)
       (if str_includes (toLowerCase (group_title grp)) lowerQuery
        then results @ [\<lparr>r2_type = Grupo, r2_id = subject_id materia,
               r2_text = ''Grupo: '' @ [CHR 0x22] @ group_title grp @ [CHR 0x22]
                         @ '' en '' @ code materia\<rparr>]
        else results)
       (cards grp)"

definition push_materia_v2 :: "string \<Rightarrow> result_v2 list \<Rightarrow> subject \<Rightarrow> result_v2 list" where
  "push_materia_v2 lowerQuery results materia =
     foldl (push_group_v2 lowerQuery materia)
       (if str_includes (toLowerCase (code materia)) lowerQuery
           \<or> str_includes (toLowerCase (title materia)) lowerQuery
        then results @ [\<lparr>r2_type = Materia, r2_id = subject_id materia,
               r2_text = code materia @ '' - '' @ title materia\<rparr>]
        else results)
       (groups materia)"

definition searchGlossary :: "string \<Rightarrow> glossary \<Rightarrow> result_v2 list" where
  "searchGlossary query glossaryData =
     take 10 (foldl (push_materia_v2 (toLowerCase query)) [] glossaryData)"

record autocomplete_v2 =
  list_children_v2 :: "node list"
  list_expanded_v2 :: "string option"

definition resultItem_v2 :: "nat \<Rightarrow> result_v2 \<Rightarrow> node" where
  "resultItem_v2 index result =
     Element ''li''
       [(''role'', ''option''), (''id'', ''result-'' @ show_nat index), (''data-id'', r2_id result)]
       (if r2_text result = [] then [] else [Text (r2_text result)])"

definition updateAutocompleteList :: "result_v2 list \<Rightarrow> autocomplete_v2 \<Rightarrow> autocomplete_v2" where
  "updateAutocompleteList results ui =
     (if length results = 0
      then ui\<lparr>list_children_v2 := [], list_expanded_v2 := Some ''false''\<rparr>
      else ui\<lparr>list_children_v2 := map (\<lambda>(index, result). resultItem_v2 index result)
                                       (zip [0..<length results] results),
               list_expanded_v2 := Some ''true''\<rparr>)"

text \<open>The body of the debounced handler; \<open>v\<close> is \<^verbatim>\<open>e.target.value\<close>.\<close>

definition debouncedSearch :: "string \<Rightarrow> glossary \<Rightarrow> autocomplete_v2 \<Rightarrow> autocomplete_v2" where
  "debouncedSearch v glossaryData ui =
     (let query = trim v in
      if length query > 2
      then updateAutocompleteList (searchGlossary query glossaryData) ui
      else updateAutocompleteList [] ui)"

section \<open>Search, variant 3: \<^verbatim>\<open>handleSearch\<close>, \<^verbatim>\<open>renderSearchResults\<close>, \<^verbatim>\<open>clearSearchResults\<close>\<close>

text \<open>
  The pushed objects \<^verbatim>\<open>{type, text, id}\<close>, \<^verbatim>\<open>{type, text, materiaId, groupId}\<close> and
  \<^verbatim>\<open>{type, text, materiaId, groupId, cardId}\<close>; an absent key is \<open>None\<close>.
\<close>

record result_v3 =
  r3_type :: match_type
  r3_text :: string
  r3_id :: "string option"
  r3_materiaId :: "string option"
  r3_groupId :: "string option"
  r3_cardId :: "string option"

definition push_card_v3 :: "string \<Rightarrow> subject \<Rightarrow> group \<Rightarrow> result_v3 list \<Rightarrow> card \<Rightarrow> result_v3 list" where
  "push_card_v3 query materia grp results cardData =
     (if (str_includes (toLowerCase (es cardData)) query \<or> str_includes (toLowerCase (en cardData)) query)
         \<and> \<not> list_ex (\<lambda>r. r3_text r = es cardData) results
      then results @ [\<lparr>r3_type = Tarjeta, r3_text = es cardData @ '' / '' @ en cardData,
             r3_id = None, r3_materiaId = Some (subject_id materia),
             r3_groupId = Some (group_id grp), r3_cardId = Some (card_id cardData)\<rparr>]
      else results)"

definition push_group_v3 :: "string \<Rightarrow> subject \<Rightarrow> result_v3 list \<Rightarrow> group \<Rightarrow> result_v3 list" where
  "push_group_v3 query materia results grp =
     foldl (push_card_v3 query materia grp)
       (if str_includes (toLowerCase (group_title grp)) query
           \<and> \<not> list_ex (\<lambda>r. r3_text r = group_title grp) results
        then results @ [\<lparr>r3_type = Grupo,
               r3_text = group_title grp @ '' (en '' @ title materia @ '')'',
               r3_id = None, r3_materiaId = Some (subject_id materia),
               r3_groupId = Some (group_id grp), r3_cardId = None\<rparr>]
        else results)
       (cards grp)"

definition push_materia_v3 :: "string \<Rightarrow> result_v3 list \<Rightarrow> subject \<Rightarrow> result_v3 list" where
  "push_materia_v3 query results materia =
     foldl (push_group_v3 query materia)
       (if str_includes (toLowerCase (title materia)) query
           \<or> str_includes (toLowerCase (code materia)) query
        then results @ [\<lparr>r3_type = Materia, r3_text = code materia @ '' - '' @ title materia,
               r3_id = Some (subject_id materia), r3_materiaId = None,
               r3_groupId = None, r3_cardId = None\<rparr>]
        else results)
       (groups materia)"

definition results_v3 :: "string \<Rightarrow> glossary \<Rightarrow> result_v3 list" where
  "results_v3 query glossaryData = foldl (push_materia_v3 query) [] glossaryData"

record search_ui_v3 =
  searchResults :: "node list"
  combobox_expanded :: "string option"
  searchLiveRegion :: string

text \<open>\<^verbatim>\<open>a || b\<close> on strings that may be absent: the first truthy one.\<close>

definition truthy :: "string option \<Rightarrow> bool" where
  "truthy v = (case v of None \<Rightarrow> False | Some s \<Rightarrow> s \<noteq> [])"

definition interpolate :: "string option \<Rightarrow> string" where
  "interpolate v = (case v of None \<Rightarrow> ''undefined'' | Some s \<Rightarrow> s)"

definition resultItem_v3 :: "result_v3 \<Rightarrow> node" where
  "resultItem_v3 r =
     Element ''li''
       [(''class'', ''search-combobox__result-item''), (''role'', ''option''),
        (''data-materia-id'',
           interpolate (if truthy (r3_materiaId r) then r3_materiaId r else r3_id r)),
        (''data-group-id'', (case r3_groupId r of None \<Rightarrow> [] | Some gid \<Rightarrow> gid))]
       [Text (r3_text r)]"

definition clearSearchResults :: "search_ui_v3 \<Rightarrow> search_ui_v3" where
  "clearSearchResults ui = ui\<lparr>searchResults := [], combobox_expanded := Some ''false''\<rparr>"

definition renderSearchResults :: "result_v3 list \<Rightarrow> search_ui_v3 \<Rightarrow> search_ui_v3" where
  "renderSearchResults results ui =
     ui\<lparr>searchResults :=
          (if length results = 0
           then [Element ''li'' [(''class'', ''search-combobox__result-item--no-results'')]
                   [Text ''No se encontraron resultados.'']]
           else map resultItem_v3 results),
        combobox_expanded := Some ''true'',
        searchLiveRegion := show_nat (length results) @ '' resultados encontrados.''\<rparr>"

text \<open>
  \<open>v\<close> is \<^verbatim>\<open>e.target.value\<close>. The cache \<^verbatim>\<open>glossaryData\<close> of variant 3 starts as \<^verbatim>\<open>null\<close>
  (\<open>None\<close>), and \<^verbatim>\<open>null.forEach\<close> throws a TypeError.
\<close>

definition handleSearch_v3 ::
  "string \<Rightarrow> glossary option \<Rightarrow> search_ui_v3 \<Rightarrow> js_error + search_ui_v3" where
  "handleSearch_v3 v glossaryData ui =
     (let query = trim (toLowerCase v) in
      if length query < 2 then Inr (clearSearchResults ui)
      else case glossaryData of
             None \<Rightarrow> Inl TypeError
           | Some doc \<Rightarrow> Inr (renderSearchResults (take 10 (results_v3 query doc)) ui))"

section \<open>The network\<close>

text \<open>
  What \<^verbatim>\<open>fetch('data/glossary.json')\<close> and \<^verbatim>\<open>response.json()\<close> can yield: the request is
  rejected, or a response arrives with its \<^verbatim>\<open>ok\<close> flag and a body that parses to a
  glossary or does not parse. A call of a loader takes the outcome of the one request it
  may make; the page counts the requests made.
\<close>

datatype body = Malformed | Json glossary

datatype fetch_outcome = Rejected | Response bool body

text \<open>The outcome of \<^verbatim>\<open>fetch(path, { method: 'HEAD' })\<close>.\<close>

datatype head_outcome = HeadOk | HeadNotOk | HeadRejected

section \<open>Page state\<close>

text \<open>
  The module variables and the parts of the document that each variant reads and writes.
  \<open>console\<close> holds what was passed to \<^verbatim>\<open>console.error\<close>. The page is taken to have
  the elements the scripts look up: the content area, the search field and its list, and
  the \<^verbatim>\<open>meta\<close> elements that variants 2 and 3 write the title and description to.
\<close>

text \<open>
  The image cache of variant 1 is the object literal \<^verbatim>\<open>{}\<close>, read with
  \<^verbatim>\<open>imageCache[path]\<close>. Such a lookup gives a string that the script stored under the name,
  or, for a name that the object inherits from \<^verbatim>\<open>Object.prototype\<close>, the inherited member
  (a function, or the prototype itself for \<^verbatim>\<open>__proto__\<close>), or \<^verbatim>\<open>undefined\<close> (\<open>None\<close>).
  The field \<open>imageCache\<close> of the page is that lookup; \<open>empty_object\<close> is the lookup of \<^verbatim>\<open>{}\<close>.
\<close>

datatype js_value = Str string | Inherited string

definition inherited_names :: "string list" where
  "inherited_names =
     [''constructor'', ''__defineGetter__'', ''__defineSetter__'', ''hasOwnProperty'',
      ''__lookupGetter__'', ''__lookupSetter__'', ''isPrototypeOf'', ''propertyIsEnumerable'',
      ''toString'', ''valueOf'', ''__proto__'', ''toLocaleString'']"

definition empty_object :: "string \<rightharpoonup> js_value" where
  "empty_object name = (if name \<in> set inherited_names then Some (Inherited name) else None)"


record page_v1 =
  glossaryData_v1 :: glossary
  currentSubjectId :: "string option"
  imageCache :: "string \<rightharpoonup> js_value"
  subjectArea :: "node list"
  console_v1 :: "string list"
  fetches_v1 :: nat
  head_requests :: "string list"
  image_loads :: "string list"

record metaData =
  meta_title :: string
  meta_description :: string

record page_v2 =
  glossaryData_v2 :: glossary
  currentMateria :: "subject option"
  dynamicContent :: "node list"
  page_metadata_v2 :: metaData
  console_v2 :: "string list"
  fetches_v2 :: nat
  autocomplete_attached :: nat

record page_v3 =
  glossaryData_v3 :: "glossary option"
  dynamicContentArea :: "node list"
  page_metadata_v3 :: metaData
  console_v3 :: "string list"
  fetches_v3 :: nat

section \<open>Loading the glossary\<close>

text \<open>
  \<^verbatim>\<open>loadData\<close> of variant 1: every call fetches; a failure (rejection, a response that is
  not \<^verbatim>\<open>ok\<close>, a body that does not parse) is caught, logged, shown in the subject area,
  and answered with \<^verbatim>\<open>[]\<close>, leaving \<^verbatim>\<open>glossaryData\<close> as it was.
\<close>

definition load_failed :: "fetch_outcome \<Rightarrow> bool" where
  "load_failed outcome =
     (case outcome of Rejected \<Rightarrow> True | Response ok b \<Rightarrow> \<not> ok \<or> b = Malformed)"

definition error_message_v1 :: node where
  "error_message_v1 =
     Element ''p'' [(''class'', ''error-message'')]
       [Text (''Error al cargar el contenido. Por favor, int'' @ [CHR 0xE9] @ ''ntelo de nuevo m''
              @ [CHR 0xE1] @ ''s tarde.'')]"

definition loadData_v1 :: "fetch_outcome \<Rightarrow> page_v1 \<Rightarrow> glossary \<times> page_v1" where
  "loadData_v1 outcome st =
     (let st' = st\<lparr>fetches_v1 := fetches_v1 st + 1\<rparr> in
      case outcome of
        Response True (Json data) \<Rightarrow> (data, st'\<lparr>glossaryData_v1 := data\<rparr>)
      | _ \<Rightarrow> ([], st'\<lparr>console_v1 := console_v1 st' @ [''Error al cargar los datos del glosario:''],
                       subjectArea := [error_message_v1]\<rparr>))"

text \<open>
  \<^verbatim>\<open>loadData\<close> of variant 2 returns nothing; on success it calls \<^verbatim>\<open>attachAutocomplete\<close>.
\<close>

definition error_message_v2 :: node where
  "error_message_v2 =
     Element ''p'' []
       [Text (''Error al cargar el contenido. Por favor, revisa la consola para m''
              @ [CHR 0xE1] @ ''s detalles.'')]"

definition loadData_v2 :: "fetch_outcome \<Rightarrow> page_v2 \<Rightarrow> page_v2" where
  "loadData_v2 outcome st =
     (let st' = st\<lparr>fetches_v2 := fetches_v2 st + 1\<rparr> in
      case outcome of
        Response True (Json data) \<Rightarrow>
          st'\<lparr>glossaryData_v2 := data, autocomplete_attached := autocomplete_attached st' + 1\<rparr>
      | _ \<Rightarrow> st'\<lparr>console_v2 := console_v2 st' @ [''Error al cargar los datos:''],
                   dynamicContent := [error_message_v2]\<rparr>)"

text \<open>
  \<^verbatim>\<open>loadData\<close> of variant 3: \<^verbatim>\<open>if (glossaryData) return glossaryData\<close> answers from the
  cache once it is set (an array is truthy, the empty one too); otherwise it fetches, and
  a failure is answered with \<^verbatim>\<open>[]\<close> while the cache stays \<^verbatim>\<open>null\<close>.
\<close>

definition error_message_v3 :: node where
  "error_message_v3 =
     Element ''p'' [(''class'', ''error'')]
       [Text (''No se pudo cargar el contenido. Por favor, intente de nuevo m''
              @ [CHR 0xE1] @ ''s tarde.'')]"

definition loadData_v3 :: "fetch_outcome \<Rightarrow> page_v3 \<Rightarrow> glossary \<times> page_v3" where
  "loadData_v3 outcome st =
     (case glossaryData_v3 st of
        Some cached \<Rightarrow> (cached, st)
      | None \<Rightarrow>
          (let st' = st\<lparr>fetches_v3 := fetches_v3 st + 1\<rparr> in
           case outcome of
             Response True (Json data) \<Rightarrow> (data, st'\<lparr>glossaryData_v3 := Some data\<rparr>)
           | _ \<Rightarrow> ([], st'\<lparr>console_v3 := console_v3 st' @ [''Error al cargar el glosario:''],
                            dynamicContentArea := [error_message_v3]\<rparr>)))"

section \<open>Image sources\<close>

definition placeholder :: string where
  "placeholder = ''assets/images/placeholder.png''"

text \<open>
  \<^verbatim>\<open>safeImageUrl\<close> of variant 1, one call taken as a whole. When the lookup
  \<^verbatim>\<open>imageCache[path]\<close> is not \<^verbatim>\<open>undefined\<close>, its value is returned and no request is made:
  for a stored path that is the cached string, for an inherited name the inherited member.
  Otherwise one HEAD request is made, and its outcome decides between the path and the
  placeholder, which is stored under the path. A store happens only where the lookup gave
  \<^verbatim>\<open>undefined\<close>, so never under an inherited name of \<^verbatim>\<open>{}\<close>.
\<close>

definition safeImageUrl_v1 :: "head_outcome \<Rightarrow> string \<Rightarrow> page_v1 \<Rightarrow> js_value \<times> page_v1" where
  "safeImageUrl_v1 probe path st =
     (case imageCache st path of
        Some cached \<Rightarrow> (cached, st)
      | None \<Rightarrow>
          (let st' = st\<lparr>head_requests := head_requests st @ [path]\<rparr> in
           if probe = HeadOk
           then (Str path, st'\<lparr>imageCache := (imageCache st')(path \<mapsto> Str path)\<rparr>)
           else (Str placeholder,
                 st'\<lparr>imageCache := (imageCache st')(path \<mapsto> Str placeholder)\<rparr>)))"



text \<open>
  \<^verbatim>\<open>safeImageUrl\<close> of variant 2 makes no request: it prefixes the path. (The \<^verbatim>\<open>.webp\<close>
  path it computes is not used.)
\<close>

definition safeImageUrl_v2 :: "string \<Rightarrow> string" where
  "safeImageUrl_v2 path = ''assets/images/'' @ path"

text \<open>
  Variant 3 gives its images the inline handler
  \<^verbatim>\<open>onerror="this.src='assets/images/placeholder.png'; this.onerror=null;"\<close>. When the image
  fails to load the browser runs it: the source becomes the placeholder and the handler
  is switched off, which the model shows by dropping the attribute. An element without
  the handler stays as it is.
\<close>

definition onerror_script :: string where
  "onerror_script = ''this.src='' @ [CHR 0x27] @ ''assets/images/placeholder.png'' @ [CHR 0x27]
                    @ ''; this.onerror=null;''"

fun set_attr :: "string \<Rightarrow> string \<Rightarrow> (string \<times> string) list \<Rightarrow> (string \<times> string) list" where
  "set_attr k v [] = [(k, v)]"
| "set_attr k v ((k', v') # attrs) =
     (if k' = k then (k, v) # attrs else (k', v') # set_attr k v attrs)"

fun load_error :: "node \<Rightarrow> node" where
  "load_error (Text s) = Text s"
| "load_error (Element tag attrs children) =
     (if map_of attrs ''onerror'' = Some onerror_script
      then Element tag (filter (\<lambda>(k, v). k \<noteq> ''onerror'') (set_attr ''src'' placeholder attrs))
             children
      else Element tag attrs children)"

section \<open>Helpers of the renderers\<close>

text \<open>\<^verbatim>\<open>Array.prototype.join\<close>, \<^verbatim>\<open>Array.prototype.find\<close> and \<^verbatim>\<open>setAttribute\<close>.\<close>

fun join :: "string \<Rightarrow> string list \<Rightarrow> string" where
  "join sep [] = []"
| "join sep [x] = x"
| "join sep (x # y # ys) = x @ sep @ join sep (y # ys)"

fun setAttribute :: "string \<Rightarrow> string \<Rightarrow> node \<Rightarrow> node" where
  "setAttribute k v (Text s) = Text s"
| "setAttribute k v (Element tag attrs children) = Element tag (set_attr k v attrs) children"

text \<open>
  \<^verbatim>\<open>JSON.stringify\<close> of a card, its keys in the order of the glossary file
  (\<^verbatim>\<open>id, es, en, def_es, def_en, img\<close>), and \<^verbatim>\<open>encodeURIComponent\<close> on code units below 256.
\<close>

definition hex_lower :: "nat \<Rightarrow> char" where
  "hex_lower n = (if n < 10 then char_of (48 + n) else char_of (87 + n))"

definition hex_upper :: "nat \<Rightarrow> char" where
  "hex_upper n = (if n < 10 then char_of (48 + n) else char_of (55 + n))"

definition json_escape :: "char \<Rightarrow> string" where
  "json_escape c =
     (let n = (of_char c :: nat) in
      if n = 34 then [CHR 0x5C, CHR 0x22]
      else if n = 92 then [CHR 0x5C, CHR 0x5C]
      else if n = 8 then [CHR 0x5C, CHR ''b'']
      else if n = 9 then [CHR 0x5C, CHR ''t'']
      else if n = 10 then [CHR 0x5C, CHR ''n'']
      else if n = 12 then [CHR 0x5C, CHR ''f'']
      else if n = 13 then [CHR 0x5C, CHR ''r'']
      else if n < 32 then [CHR 0x5C] @ ''u00'' @ [hex_lower (n div 16), hex_lower (n mod 16)]
      else [c])"

definition json_string :: "string \<Rightarrow> string" where
  "json_string s = [CHR 0x22] @ concat (map json_escape s) @ [CHR 0x22]"

definition stringify_card :: "card \<Rightarrow> string" where
  "stringify_card c =
     ''{'' @ json_string ''id'' @ '':'' @ json_string (card_id c)
     @ '','' @ json_string ''es'' @ '':'' @ json_string (es c)
     @ '','' @ json_string ''en'' @ '':'' @ json_string (en c)
     @ '','' @ json_string ''def_es'' @ '':'' @ json_string (def_es c)
     @ '','' @ json_string ''def_en'' @ '':'' @ json_string (def_en c)
     @ '','' @ json_string ''img'' @ '':'' @ json_string (img c) @ ''}''"

definition uri_unreserved :: "char \<Rightarrow> bool" where
  "uri_unreserved c =
     (let n = (of_char c :: nat) in
      (65 \<le> n \<and> n \<le> 90) \<or> (97 \<le> n \<and> n \<le> 122) \<or> (48 \<le> n \<and> n \<le> 57)
      \<or> c \<in> set ''-_.!~*()'' \<or> c = CHR 0x27)"

definition percent :: "nat \<Rightarrow> string" where
  "percent b = [CHR ''%'', hex_upper (b div 16), hex_upper (b mod 16)]"

definition encodeURIComponent :: "string \<Rightarrow> string" where
  "encodeURIComponent s =
     concat (map (\<lambda>c. let n = (of_char c :: nat) in
                        if uri_unreserved c then [c]
                        else if n < 128 then percent n
                        else percent (192 + n div 64) @ percent (128 + n mod 64)) s)"

section \<open>Rendering, variant 1: \<^verbatim>\<open>renderCard\<close>, \<^verbatim>\<open>renderGroup\<close>, \<^verbatim>\<open>renderMateria\<close>\<close>

text \<open>
  \<^verbatim>\<open>renderCard\<close> returns the element at once; the probe it starts for the image,
  \<^verbatim>\<open>safeImageUrl(imageFront.src).then(url => imageFront.src = url)\<close>, settles later and is
  \<open>settle_image\<close> below, \<open>src\<close> being the URL that \<^verbatim>\<open>imageFront.src\<close> reads. Assigning to
  \<^verbatim>\<open>imageFront.src\<close> stores the value as a string; how the browser prints an inherited
  member is its own matter and is the parameter \<open>member_text\<close>.
\<close>

definition renderCard_v1 :: "card \<Rightarrow> node" where
  "renderCard_v1 cardData =
     (let wordFront = createEl_v1 ''h4'' ''card__word'' [] (es cardData) [] [];
          imageFront = createEl_v1 ''img'' ''card__image'' [] []
                         [(''src'', ''assets/images/'' @ img cardData), (''alt'', es cardData)] [];
          front = createEl_v1 ''div'' ''card__face card__face--front'' [] [] []
                    [wordFront, imageFront];
          wordBack = createEl_v1 ''h4'' ''card__word'' [] (en cardData) [] [];
          defEs = createEl_v1 ''p'' ''card__definition'' [] (''ES: '' @ def_es cardData) [] [];
          defEn = createEl_v1 ''p'' ''card__definition'' [] (''EN: '' @ def_en cardData) [] [];
          expandBtn = createEl_v1 ''button'' ''card__button'' [] ''Expandir''
                        [(''aria-label'', ''Expandir la tarjeta de '' @ es cardData)] [];
          actions = createEl_v1 ''div'' ''card__actions'' [] [] [] [expandBtn];
          back = createEl_v1 ''div'' ''card__face card__face--back'' [] [] []
                   [wordBack, defEs, defEn, actions];
          inner = createEl_v1 ''div'' ''card__inner'' [] [] [] [front, back]
      in createEl_v1 ''div'' ''card'' [] []
           [(''tabindex'', ''0''), (''role'', ''button''),
            (''aria-label'', ''Tarjeta de '' @ es cardData)]
           [inner])"

fun src_text :: "(string \<Rightarrow> string) \<Rightarrow> js_value \<Rightarrow> string" where
  "src_text member_text (Str s) = s"
| "src_text member_text (Inherited name) = member_text name"

definition settle_image ::
  "(string \<Rightarrow> string) \<Rightarrow> head_outcome \<Rightarrow> string \<Rightarrow> page_v1 \<Rightarrow> node \<Rightarrow> node \<times> page_v1" where
  "settle_image member_text probe src st imageFront =
     (let (url, st') = safeImageUrl_v1 probe src st
      in (setAttribute ''src'' (src_text member_text url) imageFront, st'))"

definition renderGroup_v1 :: "group \<Rightarrow> node" where
  "renderGroup_v1 grp =
     createEl_v1 ''section'' ''group'' (group_id grp) [] []
       ([createEl_v1 ''h3'' ''group__title'' [] (group_title grp) [] []]
        @ (if length (members grp) > 0
           then [createEl_v1 ''p'' ''group__members'' []
                   (''Miembros: '' @ join '', '' (members grp)) [] []]
           else [])
        @ [createEl_v1 ''div'' ''cards-grid'' [] [] [] (map renderCard_v1 (cards grp))])"

definition renderMateria_v1 :: "string \<Rightarrow> page_v1 \<Rightarrow> js_error option \<times> page_v1" where
  "renderMateria_v1 subjectId st =
     (case find (\<lambda>s. subject_id s = subjectId) (glossaryData_v1 st) of
        None \<Rightarrow>
          (None, st\<lparr>console_v1 := console_v1 st @ [''Materia no encontrada: '' @ subjectId]\<rparr>)
      | Some subject \<Rightarrow>
          (let header = createEl_v1 ''div'' ''subject__header'' [] [] []
                 ([createEl_v1 ''h2'' ''subject__title'' []
                     (code subject @ '' - '' @ title subject) [] []]
                  @ (if description subject \<noteq> []
                     then [createEl_v1 ''p'' ''subject__description'' [] (description subject) [] []]
                     else []));
               groupsContainer = createEl_v1 ''div'' ''groups-container'' [] [] []
                                   (map renderGroup_v1 (groups subject));
               subjectContainer = createEl_v1 ''div'' ''subject'' [] [] [] [header, groupsContainer]
           in (None, st\<lparr>currentSubjectId := Some subjectId,
                         subjectArea := [subjectContainer]\<rparr>)))"

section \<open>Rendering, variant 2: \<^verbatim>\<open>renderCard\<close>, \<^verbatim>\<open>renderGroup\<close>, \<^verbatim>\<open>renderWindow\<close>, \<^verbatim>\<open>renderMateria\<close>\<close>

text \<open>The two buttons that close each face of a card; the faces differ in the first label.\<close>

definition card_controls_v2 :: "string \<Rightarrow> node" where
  "card_controls_v2 flipLabel =
     Element ''div'' [(''class'', ''card__controls'')]
       [Element ''button'' [(''class'', ''card__btn js-flip-btn''), (''aria-label'', flipLabel)]
          [Text ''Girar''],
        Element ''button'' [(''class'', ''card__btn js-expand-btn''),
                            (''aria-label'', ''Ampliar informaci'' @ [CHR 0xF3] @ ''n'')]
          [Text ''Ampliar'']]"

definition renderCard_v2 :: "card \<Rightarrow> string \<Rightarrow> node" where
  "renderCard_v2 cardData slug =
     (let cardFront =
            Element ''div'' [(''class'', ''card-face card-front'')]
              [Element ''h4'' [(''class'', ''card-front__word'')] [Text (es cardData)],
               Element ''img'' [(''class'', ''card-front__thumbnail''),
                                (''src'', ''assets/images/'' @ img cardData),
                                (''alt'', es cardData)] [],
               card_controls_v2 ''Girar tarjeta''];
          cardBack =
            Element ''div'' [(''class'', ''card-face card-back'')]
              [Element ''h4'' [(''class'', ''card-back__word'')] [Text (en cardData)],
               Element ''img'' [(''class'', ''card-back__image''),
                                (''src'', ''assets/images/'' @ img cardData),
                                (''alt'', es cardData)] [],
               Element ''p'' [(''class'', ''card-back__def-es'')] [Text (def_es cardData)],
               Element ''p'' [(''class'', ''card-back__def-en'')] [Text (def_en cardData)],
               card_controls_v2 ''Girar de nuevo'']
      in Element ''div''
           [(''class'', ''card''), (''tabindex'', ''0''),
            (''data-card-data'', stringify_card cardData)]
           [cardFront, cardBack])"

definition renderGroup_v2 :: "group \<Rightarrow> string \<Rightarrow> node" where
  "renderGroup_v2 grp slug =
     Element ''section'' [(''class'', ''group-section'')]
       [Element ''div'' [(''class'', ''group-section__header'')]
          [Element ''h3'' [] [Text (group_title grp)],
           Element ''span'' [] [Text (''Grupo: '' @ join '', '' (members grp))]],
        Element ''div'' [(''class'', ''group-section__cards'')]
          (map (\<lambda>c. renderCard_v2 c slug) (cards grp))]"

definition renderWindow :: "window \<Rightarrow> subject \<Rightarrow> node" where
  "renderWindow windowData materiaData =
     Element ''div''
       [(''id'', ''window-'' @ window_id windowData), (''class'', ''materia__tab-content''),
        (''role'', ''tabpanel'')]
       (concat (map (\<lambda>groupId.
                       case find (\<lambda>g. group_id g = groupId) (groups materiaData) of
                         Some grp \<Rightarrow> [renderGroup_v2 grp (subject_id materiaData)]
                       | None \<Rightarrow> [])
                    (window_groups windowData)))"

definition tabButton_v2 :: "nat \<Rightarrow> window \<Rightarrow> node" where
  "tabButton_v2 index windowData =
     Element ''button''
       [(''class'', ''materia__tab-button''), (''role'', ''tab''),
        (''id'', ''tab-'' @ window_id windowData),
        (''aria-controls'', ''window-'' @ window_id windowData),
        (''aria-selected'', (if index = 0 then ''true'' else ''false''))]
       [Text (window_title windowData)]"

definition not_found_v2 :: node where
  "not_found_v2 = Element ''p'' [] [Text ''Lo sentimos, la materia no fue encontrada.'']"

text \<open>
  After the tabs and panels are built,
  \<^verbatim>\<open>windowsContainer.querySelector('.materia__tab-content').setAttribute('aria-hidden', 'false')\<close>
  marks the first element of that class in the container, which is its first panel.
\<close>

definition renderMateria_v2 :: "string \<Rightarrow> page_v2 \<Rightarrow> js_error option \<times> page_v2" where
  "renderMateria_v2 materiaId st =
     (case find (\<lambda>m. subject_id m = materiaId) (glossaryData_v2 st) of
        None \<Rightarrow>
          (None, st\<lparr>console_v2 := console_v2 st @ [''Materia no encontrada: '' @ materiaId],
                    dynamicContent := [not_found_v2]\<rparr>)
      | Some materia \<Rightarrow>
          (let header = Element ''header'' [(''class'', ''materia-header'')]
                 [Element ''h1'' [] [Text (code materia @ '' - '' @ title materia)],
                  Element ''p'' [] [Text (description materia)]];
               body =
                 (case windows materia of
                    Some (w # ws) \<Rightarrow>
                      [Element ''div'' [(''class'', ''materia__tabs''), (''role'', ''tablist'')]
                         (map (\<lambda>(index, windowData). tabButton_v2 index windowData)
                              (zip [0..<length (w # ws)] (w # ws))),
                       Element ''div'' [(''class'', ''materia__windows'')]
                         (setAttribute ''aria-hidden'' ''false'' (renderWindow w materia)
                          # map (\<lambda>windowData. renderWindow windowData materia) ws)]
                  | _ \<Rightarrow> map (\<lambda>grp. renderGroup_v2 grp (subject_id materia)) (groups materia));
               materiaContainer =
                 Element ''div'' [(''class'', ''materia-container'')] (header # body)
           in (None, st\<lparr>currentMateria := Some materia,
                         page_metadata_v2 :=
                           \<lparr>meta_title = title materia @ '' | Portal Acad'' @ [CHR 0xE9] @ ''mico'',
                            meta_description = description materia\<rparr>,
                         dynamicContent := [materiaContainer]\<rparr>)))"

section \<open>Rendering, variant 3: \<^verbatim>\<open>renderCard\<close>, \<^verbatim>\<open>renderGroup\<close>, \<^verbatim>\<open>renderMateria\<close>\<close>

definition card_actions_v3 :: "card \<Rightarrow> node" where
  "card_actions_v3 cardData =
     Element ''div'' [(''class'', ''card__actions'')]
       [Element ''button'' [(''class'', ''card__btn js-flip-btn''),
                            (''aria-label'', ''Girar tarjeta'')] [Text ''Girar''],
        Element ''button'' [(''class'', ''card__btn js-expand-btn''),
                            (''aria-label'', ''Ampliar tarjeta''),
                            (''data-card'', encodeURIComponent (stringify_card cardData))]
          [Text ''Ampliar'']]"

definition thumbnail_v3 :: "card \<Rightarrow> node" where
  "thumbnail_v3 cardData =
     Element ''img''
       [(''src'', ''assets/images/'' @ img cardData), (''alt'', es cardData),
        (''class'', ''card__thumbnail''), (''loading'', ''lazy''), (''onerror'', onerror_script)] []"

definition renderCard_v3 :: "card \<Rightarrow> group \<Rightarrow> node" where
  "renderCard_v3 cardData grp =
     Element ''div''
       [(''class'', ''card''), (''role'', ''region''),
        (''aria-label'', ''Tarjeta de estudio para '' @ es cardData)]
       [Element ''div'' [(''class'', ''card__inner'')]
          [Element ''div'' [(''class'', ''card__front'')]
             [Element ''h4'' [(''class'', ''card__term'')] [Text (es cardData)],
              thumbnail_v3 cardData,
              card_actions_v3 cardData],
           Element ''div'' [(''class'', ''card__back'')]
             [Element ''h4'' [(''class'', ''card__term card__term--en'')] [Text (en cardData)],
              Element ''p'' [(''class'', ''card__def'')]
                [Element ''strong'' [] [Text ''ES:''],
                 Text ('' '' @ take 50 (def_es cardData) @ ''...'')],
              Element ''p'' [(''class'', ''card__def'')]
                [Element ''strong'' [] [Text ''EN:''],
                 Text ('' '' @ take 50 (def_en cardData) @ ''...'')],
              card_actions_v3 cardData]]]"

definition renderGroup_v3 :: "group \<Rightarrow> node" where
  "renderGroup_v3 grp =
     Element ''section'' [(''class'', ''materia__group''), (''id'', group_id grp)]
       [Element ''h3'' [(''class'', ''materia__group-title'')] [Text (group_title grp)],
        Element ''div'' [(''class'', ''cards-grid'')]
          (map (\<lambda>c. renderCard_v3 c grp) (cards grp))]"

definition tab_v3 :: "nat \<Rightarrow> window \<Rightarrow> node" where
  "tab_v3 index w =
     Element ''button''
       [(''class'', ''materia__tab '' @ (if index = 0 then ''materia__tab--active'' else [])),
        (''role'', ''tab''), (''aria-selected'', (if index = 0 then ''true'' else ''false'')),
        (''aria-controls'', ''window-'' @ window_id w),
        (''data-target'', ''window-'' @ window_id w)]
       [Text (window_title w)]"

definition window_v3 :: "subject \<Rightarrow> nat \<Rightarrow> window \<Rightarrow> node" where
  "window_v3 materia index w =
     Element ''div''
       [(''id'', ''window-'' @ window_id w),
        (''class'', ''materia__window '' @ (if index = 0 then ''materia__window--active'' else [])),
        (''role'', ''tabpanel'')]
       (map renderGroup_v3
          (filter (\<lambda>g. group_id g \<in> set (window_groups w)) (groups materia)))"

text \<open>
  The cache is \<^verbatim>\<open>null\<close> until a load succeeds, and \<^verbatim>\<open>null.find\<close> throws; a subject
  without \<^verbatim>\<open>windows\<close> makes \<^verbatim>\<open>materia.windows.map\<close> throw, after the title and the
  description of the page were set.
\<close>

definition renderMateria_v3 :: "string \<Rightarrow> page_v3 \<Rightarrow> js_error option \<times> page_v3" where
  "renderMateria_v3 materiaId st =
     (case glossaryData_v3 st of
        None \<Rightarrow> (Some TypeError, st)
      | Some doc \<Rightarrow>
          (case find (\<lambda>m. subject_id m = materiaId) doc of
             None \<Rightarrow>
               (None, st\<lparr>console_v3 := console_v3 st
                           @ [''Materia con id '' @ [CHR 0x22] @ materiaId @ [CHR 0x22]
                              @ '' no encontrada.'']\<rparr>)
           | Some materia \<Rightarrow>
               (let st' = st\<lparr>page_metadata_v3 :=
                              \<lparr>meta_title = title materia @ '' | Portal Acad'' @ [CHR 0xE9]
                                             @ ''mico'',
                               meta_description = description materia\<rparr>\<rparr>
                in case windows materia of
                     None \<Rightarrow> (Some TypeError, st')
                   | Some ws \<Rightarrow>
                       (let indexed = zip [0..<length ws] ws;
                            article =
                              Element ''article'' [(''class'', ''materia''), (''id'', subject_id materia)]
                                [Element ''header'' [(''class'', ''materia__header'')]
                                   [Element ''span'' [(''class'', ''materia__code'')]
                                      [Text (code materia)],
                                    Element ''h2'' [(''class'', ''materia__title'')]
                                      [Text (title materia)],
                                    Element ''p'' [(''class'', ''materia__description'')]
                                      [Text (description materia)]],
                                 Element ''div'' [(''class'', ''materia__tabs''), (''role'', ''tablist'')]
                                   (map (\<lambda>(index, w). tab_v3 index w) indexed),
                                 Element ''div'' [(''class'', ''materia__content'')]
                                   (map (\<lambda>(index, w). window_v3 materia index w) indexed)]
                        in (None, st'\<lparr>dynamicContentArea := [article]\<rparr>)))))"

section \<open>Queries on the document\<close>

text \<open>
  The tokens of a \<^verbatim>\<open>class\<close> attribute (the scripts separate them by single spaces),
  \<^verbatim>\<open>classList.contains\<close>, and \<^verbatim>\<open>querySelectorAll\<close> for a property of elements, in
  document order.
\<close>

fun class_tokens :: "string \<Rightarrow> string \<Rightarrow> string list" where
  "class_tokens [] cur = (if cur = [] then [] else [cur])"
| "class_tokens (c # s) cur =
     (if c = CHR '' '' then (if cur = [] then [] else [cur]) @ class_tokens s []
      else class_tokens s (cur @ [c]))"

fun has_class :: "string \<Rightarrow> node \<Rightarrow> bool" where
  "has_class c (Text s) = False"
| "has_class c (Element tag attrs children) =
     (case map_of attrs ''class'' of None \<Rightarrow> False | Some v \<Rightarrow> c \<in> set (class_tokens v []))"

fun query_all :: "(node \<Rightarrow> bool) \<Rightarrow> node \<Rightarrow> node list" where
  "query_all P (Text s) = []"
| "query_all P (Element tag attrs children) =
     (if P (Element tag attrs children) then [Element tag attrs children] else [])
     @ concat (map (query_all P) children)"

definition query_in :: "(node \<Rightarrow> bool) \<Rightarrow> node list \<Rightarrow> node list" where
  "query_in P nodes = concat (map (query_all P) nodes)"

text \<open>
  All images of a tree fail to load: each \<^verbatim>\<open>img\<close> element gets its \<^verbatim>\<open>error\<close> event.
\<close>

fun images_fail :: "node \<Rightarrow> node" where
  "images_fail (Text s) = Text s"
| "images_fail (Element tag attrs children) =
     (if tag = ''img'' then load_error (Element tag attrs children)
      else Element tag attrs (map images_fail children))"

fun is_img :: "node \<Rightarrow> bool" where
  "is_img (Text s) = False"
| "is_img (Element tag attrs children) = (tag = ''img'')"

definition is_tabpanel :: "node \<Rightarrow> bool" where
  "is_tabpanel n = (attr ''role'' n = Some ''tabpanel'')"

text \<open>The text of the content area, and the number of its card elements.\<close>

definition text_of :: "node list \<Rightarrow> string" where
  "text_of nodes = concat (map textContent nodes)"

definition card_count :: "node list \<Rightarrow> nat" where
  "card_count nodes = length (query_in (has_class ''card'') nodes)"

text \<open>The groups that \<^verbatim>\<open>renderWindow\<close> appends: for each id of the window, the first group
  of the subject with that id, if there is one.\<close>

definition shown_groups_v2 :: "subject \<Rightarrow> window \<Rightarrow> group list" where
  "shown_groups_v2 m w =
     concat (map (\<lambda>groupId. case find (\<lambda>g. group_id g = groupId) (groups m) of
                               Some grp \<Rightarrow> [grp] | None \<Rightarrow> [])
                 (window_groups w))"

section \<open>The matching rule, in the words of the specification\<close>

text \<open>
  Case-insensitive substring containment, and what it means for a result of each variant
  to arise from it: the result stands for a subject, a group or a card of the document,
  and the query is contained in the subject's title or code, the group's title, or one of
  the card's two terms.
\<close>

definition contains_ci :: "string \<Rightarrow> string \<Rightarrow> bool" where
  "contains_ci field query = str_includes (toLowerCase field) (toLowerCase query)"

fun match_v1 :: "string \<Rightarrow> glossary \<Rightarrow> item_v1 \<Rightarrow> bool" where
  "match_v1 query doc (SubjectItem s) =
     (s \<in> set doc \<and> (contains_ci (title s) query \<or> contains_ci (code s) query))"
| "match_v1 query doc (GroupItem g sid) =
     (\<exists>s \<in> set doc. sid = subject_id s \<and> g \<in> set (groups s) \<and> contains_ci (group_title g) query)"
| "match_v1 query doc (CardItem c sid gid) =
     (\<exists>s \<in> set doc. \<exists>g \<in> set (groups s). sid = subject_id s \<and> gid = group_id g
        \<and> c \<in> set (cards g) \<and> (contains_ci (es c) query \<or> contains_ci (en c) query))"

definition match_v2 :: "string \<Rightarrow> glossary \<Rightarrow> result_v2 \<Rightarrow> bool" where
  "match_v2 query doc r =
     (\<exists>m \<in> set doc. r2_id r = subject_id m \<and>
        ((r2_type r = Materia \<and> r2_text r = code m @ '' - '' @ title m
            \<and> (contains_ci (code m) query \<or> contains_ci (title m) query))
         \<or> (\<exists>g \<in> set (groups m).
               (r2_type r = Grupo
                  \<and> r2_text r = ''Grupo: '' @ [CHR 0x22] @ group_title g @ [CHR 0x22]
                                 @ '' en '' @ code m
                  \<and> contains_ci (group_title g) query)
               \<or> (\<exists>c \<in> set (cards g). r2_type r = Tarjeta
                     \<and> r2_text r = ''T'' @ [CHR 0xE9] @ ''rmino: '' @ [CHR 0x22] @ es c
                                    @ [CHR 0x22] @ '' en '' @ code m
                     \<and> (contains_ci (es c) query \<or> contains_ci (en c) query)))))"

definition match_v3 :: "string \<Rightarrow> glossary \<Rightarrow> result_v3 \<Rightarrow> bool" where
  "match_v3 query doc r =
     (\<exists>m \<in> set doc.
        (r3_type r = Materia \<and> r3_id r = Some (subject_id m)
           \<and> r3_text r = code m @ '' - '' @ title m
           \<and> (contains_ci (title m) query \<or> contains_ci (code m) query))
        \<or> (r3_materiaId r = Some (subject_id m) \<and>
            (\<exists>g \<in> set (groups m). r3_groupId r = Some (group_id g) \<and>
               ((r3_type r = Grupo
                   \<and> r3_text r = group_title g @ '' (en '' @ title m @ '')''
                   \<and> contains_ci (group_title g) query)
                \<or> (\<exists>c \<in> set (cards g). r3_type r = Tarjeta
                      \<and> r3_cardId r = Some (card_id c)
                      \<and> r3_text r = es c @ '' / '' @ en c
                      \<and> (contains_ci (es c) query \<or> contains_ci (en c) query))))))"

section \<open>The image cache, in the words of the claim\<close>


section \<open>Windows, in the words of the specification\<close>

text \<open>The groups of a subject that a window refers to by id.\<close>

definition groups_of_window :: "subject \<Rightarrow> window \<Rightarrow> group list" where
  "groups_of_window m w = filter (\<lambda>g. group_id g \<in> set (window_groups w)) (groups m)"

section \<open>Example values\<close>

text \<open>The example document of the specification, and list states to start from.\<close>

definition example_card :: card where
  "example_card = \<lparr>card_id = ''c1'', es = ''hola'', en = ''hello'', def_es = ''saludo'',
     def_en = ''greeting'', img = ''c1.png''\<rparr>"

definition example_group :: group where
  "example_group = \<lparr>group_id = ''G1'', group_title = ''Basics'', members = [],
     cards = [example_card]\<rparr>"

definition example_subject :: subject where
  "example_subject = \<lparr>subject_id = ''S1'', code = ''101'', title = ''Intro'',
     description = [], groups = [example_group], windows = None\<rparr>"

definition example_doc :: glossary where
  "example_doc = [example_subject]"

definition ui_v1 :: autocomplete_v1 where
  "ui_v1 = \<lparr>list_children_v1 = [], list_hidden_v1 = True, input_expanded_v1 = None\<rparr>"

definition ui_v2 :: autocomplete_v2 where
  "ui_v2 = \<lparr>list_children_v2 = [Text ''old''], list_expanded_v2 = Some ''true''\<rparr>"

definition ui_v3 :: search_ui_v3 where
  "ui_v3 = \<lparr>searchResults = [Text ''old''], combobox_expanded = Some ''true'',
     searchLiveRegion = []\<rparr>"

text \<open>Four subjects with the same title, group title and card term, and ids of their own.\<close>

definition titled_subject :: "string \<Rightarrow> subject" where
  "titled_subject n =
     \<lparr>subject_id = ''S'' @ n, code = ''10'' @ n, title = ''aa'', description = [],
      groups = [\<lparr>group_id = ''G'' @ n, group_title = ''aa'', members = [],
                 cards = [\<lparr>card_id = ''c'' @ n, es = ''aa'', en = ''bb'', def_es = [],
                            def_en = [], img = ''c'' @ n @ ''.png''\<rparr>]\<rparr>],
      windows = None\<rparr>"

definition titled_doc :: glossary where
  "titled_doc = [titled_subject ''1'', titled_subject ''2'', titled_subject ''3'',
                 titled_subject ''4'']"

text \<open>The pages as the scripts find them: nothing loaded, nothing cached, nothing shown.\<close>

definition page_v1_init :: page_v1 where
  "page_v1_init = \<lparr>glossaryData_v1 = [], currentSubjectId = None, imageCache = empty_object,
     subjectArea = [], console_v1 = [], fetches_v1 = 0, head_requests = [], image_loads = []\<rparr>"

definition page_v2_init :: page_v2 where
  "page_v2_init = \<lparr>glossaryData_v2 = [], currentMateria = None, dynamicContent = [],
     page_metadata_v2 = \<lparr>meta_title = [], meta_description = []\<rparr>, console_v2 = [],
     fetches_v2 = 0, autocomplete_attached = 0\<rparr>"

definition page_v3_init :: page_v3 where
  "page_v3_init = \<lparr>glossaryData_v3 = None, dynamicContentArea = [],
     page_metadata_v3 = \<lparr>meta_title = [], meta_description = []\<rparr>, console_v3 = [],
     fetches_v3 = 0\<rparr>"

text \<open>A subject with two groups and two windows, each window showing one of them.\<close>

definition windowed_subject :: subject where
  "windowed_subject =
     \<lparr>subject_id = ''S2'', code = ''202'', title = ''Redes'', description = ''Curso'',
      groups =
        [\<lparr>group_id = ''GA'', group_title = ''Capas'', members = [''Ana'', ''Luis''],
          cards = [\<lparr>card_id = ''a1'', es = ''red'', en = ''network'', def_es = ''malla'',
                     def_en = ''mesh'', img = ''a1.png''\<rparr>]\<rparr>,
         \<lparr>group_id = ''GB'', group_title = ''Rutas'', members = [],
          cards = [\<lparr>card_id = ''b1'', es = ''ruta'', en = ''route'', def_es = ''camino'',
                     def_en = ''path'', img = ''b1.png''\<rparr>]\<rparr>],
      windows =
        Some [\<lparr>window_id = ''w1'', window_title = ''Uno'', window_groups = [''GB'']\<rparr>,
              \<lparr>window_id = ''w2'', window_title = ''Dos'', window_groups = [''GA'']\<rparr>]\<rparr>"

definition windowed_doc :: glossary where
  "windowed_doc = [windowed_subject]"

text \<open>The example subject of the specification, which has no windows, beside one that has.\<close>

definition mixed_doc :: glossary where
  "mixed_doc = [example_subject, windowed_subject]"

text \<open>Pages whose glossary is loaded, and a page of variant 1 that shows a subject.\<close>

definition loaded_v1 :: "glossary \<Rightarrow> page_v1" where
  "loaded_v1 doc = snd (loadData_v1 (Response True (Json doc)) page_v1_init)"

definition loaded_v2 :: "glossary \<Rightarrow> page_v2" where
  "loaded_v2 doc = loadData_v2 (Response True (Json doc)) page_v2_init"

definition loaded_v3 :: "glossary \<Rightarrow> page_v3" where
  "loaded_v3 doc = snd (loadData_v3 (Response True (Json doc)) page_v3_init)"

definition shown_v1 :: page_v1 where
  "shown_v1 = snd (renderMateria_v1 ''S1'' (loaded_v1 example_doc))"

section \<open>Evaluation and string lemmas\<close>

lemmas str_eval = toLowerCase_def lower_char_def char_of_def bit_0 trim_def is_white_def
  starts_with_def

lemmas example_defs = example_doc_def example_subject_def example_group_def example_card_def

lemmas search_v1_defs = uniqueResults_v1_def results_v1_def push_subject_v1_def
  push_group_v1_def push_card_v1_def

lemmas search_v2_defs = searchGlossary_def push_materia_v2_def push_group_v2_def
  push_card_v2_def

lemmas search_v3_defs = results_v3_def push_materia_v3_def push_group_v3_def push_card_v3_def

lemma length_toLowerCase: "length (toLowerCase s) = length s"
  by (simp add: toLowerCase_def)

lemma length_trim_le: "length (trim s) \<le> length s"
proof -
  have "length (trim s) \<le> length (dropWhile is_white s)"
    unfolding trim_def using length_dropWhile_le [of is_white "rev (dropWhile is_white s)"]
    by simp
  also have "\<dots> \<le> length s" by (rule length_dropWhile_le)
  finally show ?thesis .
qed

lemma lower_char_idem: "lower_char (lower_char c) = lower_char c"
  by (auto simp: lower_char_def Let_def)

lemma toLowerCase_idem: "toLowerCase (toLowerCase s) = toLowerCase s"
  by (simp add: toLowerCase_def lower_char_idem)

lemma is_white_lower: "is_white (lower_char c) = is_white c"
  by (auto simp: lower_char_def is_white_def Let_def)

lemma toLowerCase_trim: "toLowerCase (trim s) = trim (toLowerCase s)"
proof -
  have w: "is_white \<circ> lower_char = is_white" by (rule ext) (simp add: is_white_lower)
  show ?thesis
    by (simp add: toLowerCase_def trim_def rev_map dropWhile_map w)
qed

lemma foldl_invariant:
  assumes "P acc" and "\<And>a x. x \<in> set xs \<Longrightarrow> P a \<Longrightarrow> P (f a x)"
  shows "P (foldl f acc xs)"
  using assms by (induction xs arbitrary: acc) auto

section \<open>Short queries\<close>

text \<open>
  Claim C1, as the code has it. Each variant has its own threshold, measured on the query
  as the handler normalises it, and a raw value below the threshold is below it after
  normalisation too. Variant 2 (\<^verbatim>\<open>debouncedSearch\<close>) empties the list and marks it
  collapsed when the trimmed value has fewer than 3 characters; variant 3
  (\<^verbatim>\<open>handleSearch\<close>) does so when the lower-cased, trimmed value has fewer than 2, whatever
  the state of the cache; variant 1 empties and hides the list only for the empty value.
  In each case the outcome does not depend on the document: nothing is searched.
\<close>

theorem short_query_clears_list:
  "(length v' < 3 \<or> length (trim v') < 3 \<longrightarrow>
      debouncedSearch v' d' ui'
        = ui'\<lparr>list_children_v2 := [], list_expanded_v2 := Some ''false''\<rparr>)
   \<and> (length v'' < 2 \<or> length (trim (toLowerCase v'')) < 2 \<longrightarrow>
      handleSearch_v3 v'' d'' ui''
        = Inr (ui''\<lparr>searchResults := [], combobox_expanded := Some ''false''\<rparr>))
   \<and> (length v = 0 \<longrightarrow>
      handleSearch_v1 v d ui = ui\<lparr>list_children_v1 := [], list_hidden_v1 := True\<rparr>)"
proof (intro conjI impI)
  assume "length v' < 3 \<or> length (trim v') < 3"
  with length_trim_le [of v'] have "\<not> length (trim v') > 2" by auto
  then show "debouncedSearch v' d' ui'
      = ui'\<lparr>list_children_v2 := [], list_expanded_v2 := Some ''false''\<rparr>"
    by (simp add: debouncedSearch_def updateAutocompleteList_def Let_def)
next
  assume "length v'' < 2 \<or> length (trim (toLowerCase v'')) < 2"
  with length_trim_le [of "toLowerCase v''"] length_toLowerCase [of v'']
  have "length (trim (toLowerCase v'')) < 2" by auto
  then show "handleSearch_v3 v'' d'' ui''
      = Inr (ui''\<lparr>searchResults := [], combobox_expanded := Some ''false''\<rparr>)"
    by (simp add: handleSearch_v3_def clearSearchResults_def Let_def)
next
  assume "length v = 0"
  then show "handleSearch_v1 v d ui = ui\<lparr>list_children_v1 := [], list_hidden_v1 := True\<rparr>"
    by (simp add: handleSearch_v1_def toLowerCase_def Let_def)
qed

theorem short_query_clears_list_witness:
  "length ''in'' < 3
   \<and> debouncedSearch ''in'' example_doc ui_v2
       = \<lparr>list_children_v2 = [], list_expanded_v2 = Some ''false''\<rparr>
   \<and> length (trim (toLowerCase '' H '')) < 2
   \<and> handleSearch_v3 '' H '' (Some example_doc) ui_v3
       = Inr \<lparr>searchResults = [], combobox_expanded = Some ''false'', searchLiveRegion = []\<rparr>
   \<and> handleSearch_v1 [] example_doc ui_v1
       = \<lparr>list_children_v1 = [], list_hidden_v1 = True, input_expanded_v1 = None\<rparr>"
  using short_query_clears_list [where v' = "''in''" and v'' = "'' H ''" and v = "[]"
      and d' = example_doc and ui' = ui_v2 and d'' = "Some example_doc"
      and ui'' = ui_v3 and d = example_doc and ui = ui_v1]
  by (simp add: str_eval ui_v1_def ui_v2_def ui_v3_def)

text \<open>
  The claim as stated fails in variant 1: the one-character value \<open>h\<close> is searched, and the
  list shows the card \<open>hola\<close> of the example document.
\<close>

theorem one_char_query_searches_v1:
  "length ''h'' < 2
   \<and> list_children_v1 (handleSearch_v1 ''h'' example_doc ui_v1)
       = [Element ''li'' [(''class'', ''autocomplete__item''), (''role'', ''option'')]
            [Text ''hola'']]"
  by (simp add: handleSearch_v1_def uniqueResults_v1_def results_v1_def push_subject_v1_def
      push_group_v1_def push_card_v1_def listItem_v1_def createEl_v1_def example_defs
      ui_v1_def str_eval Let_def)

section \<open>The size of the result list and its duplicates\<close>

lemma map_set_keys: "map fst (map_set m k v) = (if k \<in> fst ` set m then map fst m else map fst m @ [k])"
  by (induction m k v rule: map_set.induct) (auto simp: image_iff)

lemma map_set_diag:
  "\<forall>(k, v) \<in> set m. k = v \<Longrightarrow> \<forall>(k, v) \<in> set (map_set m x x). k = v"
  by (induction m) (auto split: if_splits)

lemma map_set_key_set: "set (map fst (map_set m k v)) = insert k (set (map fst m))"
  unfolding map_set_keys by auto

lemma dedupe_inv_map_set: "dedupe_inv m \<Longrightarrow> dedupe_inv (map_set m x x)"
  unfolding dedupe_inv_def using map_set_diag [of m x] by (auto simp: map_set_keys)

lemma dedupe_inv_snd: "dedupe_inv m \<Longrightarrow> map snd m = map fst m"
  unfolding dedupe_inv_def by (induction m) auto

lemma dedupe_fold_inv: "dedupe_inv m \<Longrightarrow> dedupe_inv (foldl (\<lambda>m item. map_set m item item) m xs)"
  by (rule foldl_invariant) (auto intro: dedupe_inv_map_set)

lemma dedupe_fold_keys:
  "set (map fst (foldl (\<lambda>m item. map_set m item item) m xs)) = set (map fst m) \<union> set xs"
  by (induction xs arbitrary: m) (simp_all only: foldl.simps map_set_key_set set_simps Un_insert_left Un_insert_right Un_empty_right)

lemma uniqueResults_v1_distinct: "distinct (uniqueResults_v1 q doc)"
proof -
  have "dedupe_inv (foldl (\<lambda>m item. map_set m item item) [] (results_v1 q doc))"
    by (rule dedupe_fold_inv) (simp add: dedupe_inv_def)
  then show ?thesis
    unfolding uniqueResults_v1_def by (simp add: dedupe_inv_snd) (simp add: dedupe_inv_def)
qed

lemma uniqueResults_v1_set: "set (uniqueResults_v1 q doc) = set (results_v1 q doc)"
proof -
  have "dedupe_inv (foldl (\<lambda>m item. map_set m item item) [] (results_v1 q doc))"
    by (rule dedupe_fold_inv) (simp add: dedupe_inv_def)
  then show ?thesis
    unfolding uniqueResults_v1_def using dedupe_fold_keys [of "[]" "results_v1 q doc"]
    by (simp add: dedupe_inv_snd)
qed

text \<open>
  Claim C2, as the code has it. \<^verbatim>\<open>searchGlossary\<close> of variant 2 returns at most 10
  results and its list shows at most 10 entries; the list of variant 3 holds at most 10
  entries (the handler returns normally on a loaded document). Variant 1 has no cap: it
  collapses items with the same serialisation, so its results are pairwise distinct as
  items, and every collected item is kept.
\<close>

theorem search_results_capped_or_unique:
  "length (searchGlossary query d') \<le> 10
   \<and> length (list_children_v2 (debouncedSearch v' d' ui')) \<le> 10
   \<and> (\<exists>out. handleSearch_v3 v'' (Some d'') ui'' = Inr out \<and> length (searchResults out) \<le> 10)
   \<and> distinct (uniqueResults_v1 q d)
   \<and> set (uniqueResults_v1 q d) = set (results_v1 q d)"
proof (intro conjI)
  show cap: "length (searchGlossary query d') \<le> 10" for query
    by (simp add: searchGlossary_def)
  show "length (list_children_v2 (debouncedSearch v' d' ui')) \<le> 10"
    using cap [of "trim v'"]
    by (simp add: debouncedSearch_def updateAutocompleteList_def Let_def)
  show "\<exists>out. handleSearch_v3 v'' (Some d'') ui'' = Inr out \<and> length (searchResults out) \<le> 10"
    by (simp add: handleSearch_v3_def clearSearchResults_def renderSearchResults_def Let_def)
  show "distinct (uniqueResults_v1 q d)"
    by (rule uniqueResults_v1_distinct)
  show "set (uniqueResults_v1 q d) = set (results_v1 q d)"
    by (rule uniqueResults_v1_set)
qed

text \<open>
  The claim as stated fails on a document of four subjects that share a title, a group
  title and a card term: variant 1 lists 12 entries, all with the text \<open>aa\<close>, and the
  first 10 results of variant 3 repeat the text of the groups.
\<close>

theorem results_exceed_cap_and_repeat_texts:
  "\<not> length (uniqueResults_v1 ''aa'' titled_doc) \<le> 10
   \<and> \<not> distinct (map display_v1 (uniqueResults_v1 ''aa'' titled_doc))
   \<and> \<not> distinct (map r3_text (take 10 (results_v3 ''aa'' titled_doc)))"
  by (simp add: search_v1_defs search_v3_defs titled_doc_def titled_subject_def str_eval)

section \<open>Every result comes from a field that contains the query\<close>

lemma push_card_v1_sound:
  assumes "toLowerCase v = q" "s \<in> set doc" "g \<in> set (groups s)" "c \<in> set (cards g)"
    and "\<forall>r \<in> set acc. match_v1 v doc r"
  shows "\<forall>r \<in> set (push_card_v1 q s g acc c). match_v1 v doc r"
  using assms by (auto simp: push_card_v1_def contains_ci_def)

lemma push_group_v1_sound:
  assumes "toLowerCase v = q" "s \<in> set doc" "g \<in> set (groups s)"
    and "\<forall>r \<in> set acc. match_v1 v doc r"
  shows "\<forall>r \<in> set (push_group_v1 q s acc g). match_v1 v doc r"
  unfolding push_group_v1_def
proof (rule foldl_invariant)
  show "\<forall>r \<in> set (if str_includes (toLowerCase (group_title g)) q
          then acc @ [GroupItem g (subject_id s)] else acc). match_v1 v doc r"
    using assms by (auto simp: contains_ci_def)
next
  fix a x
  assume "x \<in> set (cards g)" "\<forall>r \<in> set a. match_v1 v doc r"
  then show "\<forall>r \<in> set (push_card_v1 q s g a x). match_v1 v doc r"
    using assms(1-3) by (intro push_card_v1_sound)
qed

lemma push_subject_v1_sound:
  assumes "toLowerCase v = q" "s \<in> set doc"
    and "\<forall>r \<in> set acc. match_v1 v doc r"
  shows "\<forall>r \<in> set (push_subject_v1 q acc s). match_v1 v doc r"
  unfolding push_subject_v1_def
proof (rule foldl_invariant)
  show "\<forall>r \<in> set (if str_includes (toLowerCase (title s)) q
            \<or> str_includes (toLowerCase (code s)) q
          then acc @ [SubjectItem s] else acc). match_v1 v doc r"
    using assms by (auto simp: contains_ci_def)
next
  fix a x
  assume "x \<in> set (groups s)" "\<forall>r \<in> set a. match_v1 v doc r"
  then show "\<forall>r \<in> set (push_group_v1 q s a x). match_v1 v doc r"
    using assms(1-2) by (intro push_group_v1_sound)
qed

lemma results_v1_sound:
  assumes "toLowerCase v = q"
  shows "\<forall>r \<in> set (results_v1 q doc). match_v1 v doc r"
  unfolding results_v1_def
  by (rule foldl_invariant) (simp_all add: push_subject_v1_sound [OF assms])

lemma push_card_v2_sound:
  assumes "toLowerCase v = q" "m \<in> set doc" "g \<in> set (groups m)" "c \<in> set (cards g)"
    and "\<forall>r \<in> set acc. match_v2 v doc r"
  shows "\<forall>r \<in> set (push_card_v2 q m acc c). match_v2 v doc r"
proof -
  have "match_v2 v doc r"
    if "contains_ci (es c) v \<or> contains_ci (en c) v"
      and "r = \<lparr>r2_type = Tarjeta, r2_id = subject_id m,
             r2_text = ''T'' @ [CHR 0xE9] @ ''rmino: '' @ [CHR 0x22] @ es c @ [CHR 0x22]
                       @ '' en '' @ code m\<rparr>" for r
    unfolding match_v2_def using that assms(2-4) by (intro bexI [of _ m]) auto
  then show ?thesis
    using assms(1,5) by (auto simp: push_card_v2_def contains_ci_def)
qed

lemma push_group_v2_sound:
  assumes "toLowerCase v = q" "m \<in> set doc" "g \<in> set (groups m)"
    and "\<forall>r \<in> set acc. match_v2 v doc r"
  shows "\<forall>r \<in> set (push_group_v2 q m acc g). match_v2 v doc r"
  unfolding push_group_v2_def
proof (rule foldl_invariant)
  have "match_v2 v doc r"
    if "contains_ci (group_title g) v"
      and "r = \<lparr>r2_type = Grupo, r2_id = subject_id m,
               r2_text = ''Grupo: '' @ [CHR 0x22] @ group_title g @ [CHR 0x22]
                         @ '' en '' @ code m\<rparr>" for r
    unfolding match_v2_def using that assms(2-3) by (intro bexI [of _ m]) auto
  then show "\<forall>r \<in> set (if str_includes (toLowerCase (group_title g)) q
        then acc @ [\<lparr>r2_type = Grupo, r2_id = subject_id m,
               r2_text = ''Grupo: '' @ [CHR 0x22] @ group_title g @ [CHR 0x22]
                         @ '' en '' @ code m\<rparr>]
        else acc). match_v2 v doc r"
    using assms(1,4) by (auto simp: contains_ci_def)
next
  fix a x
  assume "x \<in> set (cards g)" "\<forall>r \<in> set a. match_v2 v doc r"
  then show "\<forall>r \<in> set (push_card_v2 q m a x). match_v2 v doc r"
    using assms(1-3) by (intro push_card_v2_sound)
qed

lemma push_materia_v2_sound:
  assumes "toLowerCase v = q" "m \<in> set doc"
    and "\<forall>r \<in> set acc. match_v2 v doc r"
  shows "\<forall>r \<in> set (push_materia_v2 q acc m). match_v2 v doc r"
  unfolding push_materia_v2_def
proof (rule foldl_invariant)
  have "match_v2 v doc r"
    if "contains_ci (code m) v \<or> contains_ci (title m) v"
      and "r = \<lparr>r2_type = Materia, r2_id = subject_id m,
               r2_text = code m @ '' - '' @ title m\<rparr>" for r
    unfolding match_v2_def using that assms(2) by (intro bexI [of _ m]) auto
  then show "\<forall>r \<in> set (if str_includes (toLowerCase (code m)) q
           \<or> str_includes (toLowerCase (title m)) q
        then acc @ [\<lparr>r2_type = Materia, r2_id = subject_id m,
               r2_text = code m @ '' - '' @ title m\<rparr>]
        else acc). match_v2 v doc r"
    using assms(1,3) by (auto simp: contains_ci_def)
next
  fix a x
  assume "x \<in> set (groups m)" "\<forall>r \<in> set a. match_v2 v doc r"
  then show "\<forall>r \<in> set (push_group_v2 q m a x). match_v2 v doc r"
    using assms(1-2) by (intro push_group_v2_sound)
qed

lemma searchGlossary_sound: "\<forall>r \<in> set (searchGlossary query doc). match_v2 query doc r"
proof -
  have "\<forall>r \<in> set (foldl (push_materia_v2 (toLowerCase query)) [] doc). match_v2 query doc r"
    by (rule foldl_invariant) (simp_all add: push_materia_v2_sound)
  then show ?thesis
    unfolding searchGlossary_def by (meson in_set_takeD)
qed

lemma push_card_v3_sound:
  assumes "toLowerCase v = q" "m \<in> set doc" "g \<in> set (groups m)" "c \<in> set (cards g)"
    and "\<forall>r \<in> set acc. match_v3 v doc r"
  shows "\<forall>r \<in> set (push_card_v3 q m g acc c). match_v3 v doc r"
proof -
  have "match_v3 v doc r"
    if "contains_ci (es c) v \<or> contains_ci (en c) v"
      and "r = \<lparr>r3_type = Tarjeta, r3_text = es c @ '' / '' @ en c,
             r3_id = None, r3_materiaId = Some (subject_id m),
             r3_groupId = Some (group_id g), r3_cardId = Some (card_id c)\<rparr>" for r
    unfolding match_v3_def using that assms(2-4) by (intro bexI [of _ m]) auto
  then show ?thesis
    using assms(1,5) by (auto simp: push_card_v3_def contains_ci_def)
qed

lemma push_group_v3_sound:
  assumes "toLowerCase v = q" "m \<in> set doc" "g \<in> set (groups m)"
    and "\<forall>r \<in> set acc. match_v3 v doc r"
  shows "\<forall>r \<in> set (push_group_v3 q m acc g). match_v3 v doc r"
  unfolding push_group_v3_def
proof (rule foldl_invariant)
  have "match_v3 v doc r"
    if "contains_ci (group_title g) v"
      and "r = \<lparr>r3_type = Grupo,
               r3_text = group_title g @ '' (en '' @ title m @ '')'',
               r3_id = None, r3_materiaId = Some (subject_id m),
               r3_groupId = Some (group_id g), r3_cardId = None\<rparr>" for r
    unfolding match_v3_def using that assms(2-3) by (intro bexI [of _ m]) auto
  then show "\<forall>r \<in> set (if str_includes (toLowerCase (group_title g)) q
           \<and> \<not> list_ex (\<lambda>r. r3_text r = group_title g) acc
        then acc @ [\<lparr>r3_type = Grupo,
               r3_text = group_title g @ '' (en '' @ title m @ '')'',
               r3_id = None, r3_materiaId = Some (subject_id m),
               r3_groupId = Some (group_id g), r3_cardId = None\<rparr>]
        else acc). match_v3 v doc r"
    using assms(1,4) by (auto simp: contains_ci_def)
next
  fix a x
  assume "x \<in> set (cards g)" "\<forall>r \<in> set a. match_v3 v doc r"
  then show "\<forall>r \<in> set (push_card_v3 q m g a x). match_v3 v doc r"
    using assms(1-3) by (intro push_card_v3_sound)
qed

lemma push_materia_v3_sound:
  assumes "toLowerCase v = q" "m \<in> set doc"
    and "\<forall>r \<in> set acc. match_v3 v doc r"
  shows "\<forall>r \<in> set (push_materia_v3 q acc m). match_v3 v doc r"
  unfolding push_materia_v3_def
proof (rule foldl_invariant)
  have "match_v3 v doc r"
    if "contains_ci (title m) v \<or> contains_ci (code m) v"
      and "r = \<lparr>r3_type = Materia, r3_text = code m @ '' - '' @ title m,
               r3_id = Some (subject_id m), r3_materiaId = None,
               r3_groupId = None, r3_cardId = None\<rparr>" for r
    unfolding match_v3_def using that assms(2) by (intro bexI [of _ m]) auto
  then show "\<forall>r \<in> set (if str_includes (toLowerCase (title m)) q
           \<or> str_includes (toLowerCase (code m)) q
        then acc @ [\<lparr>r3_type = Materia, r3_text = code m @ '' - '' @ title m,
               r3_id = Some (subject_id m), r3_materiaId = None,
               r3_groupId = None, r3_cardId = None\<rparr>]
        else acc). match_v3 v doc r"
    using assms(1,3) by (auto simp: contains_ci_def)
next
  fix a x
  assume "x \<in> set (groups m)" "\<forall>r \<in> set a. match_v3 v doc r"
  then show "\<forall>r \<in> set (push_group_v3 q m a x). match_v3 v doc r"
    using assms(1-2) by (intro push_group_v3_sound)
qed

lemma results_v3_sound:
  assumes "toLowerCase v = q"
  shows "\<forall>r \<in> set (results_v3 q doc). match_v3 v doc r"
  unfolding results_v3_def
  by (rule foldl_invariant) (simp_all add: push_materia_v3_sound [OF assms])

text \<open>
  Claim C3. Every result stands for an entity of the document one of whose source fields
  contains the query without regard to case: in variant 1 the query is the input value,
  in variant 2 the argument of \<^verbatim>\<open>searchGlossary\<close>, in variant 3 the trimmed input value.
\<close>

theorem every_match_contains_query:
  "(\<forall>item \<in> set (uniqueResults_v1 (toLowerCase v) d). match_v1 v d item)
   \<and> (\<forall>r \<in> set (searchGlossary query d'). match_v2 query d' r)
   \<and> (\<forall>r \<in> set (take 10 (results_v3 (trim (toLowerCase v'')) d'')). match_v3 (trim v'') d'' r)"
proof (intro conjI)
  show "\<forall>item \<in> set (uniqueResults_v1 (toLowerCase v) d). match_v1 v d item"
    using results_v1_sound [of v "toLowerCase v" d] by (simp add: uniqueResults_v1_set)
  show "\<forall>r \<in> set (searchGlossary query d'). match_v2 query d' r"
    by (rule searchGlossary_sound)
  have "\<forall>r \<in> set (results_v3 (trim (toLowerCase v'')) d''). match_v3 (trim v'') d'' r"
    by (rule results_v3_sound) (rule toLowerCase_trim)
  then show "\<forall>r \<in> set (take 10 (results_v3 (trim (toLowerCase v'')) d'')).
      match_v3 (trim v'') d'' r"
    by (meson in_set_takeD)
qed

theorem every_match_contains_query_witness:
  "uniqueResults_v1 (toLowerCase ''HOLA'') example_doc = [CardItem example_card ''S1'' ''G1'']
   \<and> match_v1 ''HOLA'' example_doc (CardItem example_card ''S1'' ''G1'')
   \<and> map r2_type (searchGlossary ''Intro'' example_doc) = [Materia]
   \<and> list_all (match_v2 ''Intro'' example_doc) (searchGlossary ''Intro'' example_doc)
   \<and> map r3_text (take 10 (results_v3 (trim (toLowerCase '' Basics '')) example_doc))
       = [''Basics (en Intro)'']
   \<and> list_all (match_v3 (trim '' Basics '') example_doc)
        (take 10 (results_v3 (trim (toLowerCase '' Basics '')) example_doc))"
proof -
  have r1: "uniqueResults_v1 (toLowerCase ''HOLA'') example_doc
      = [CardItem example_card ''S1'' ''G1'']"
    by (simp add: search_v1_defs example_defs str_eval)
  have r2: "map r2_type (searchGlossary ''Intro'' example_doc) = [Materia]"
    by (simp add: search_v2_defs example_defs str_eval)
  have r3: "map r3_text (take 10 (results_v3 (trim (toLowerCase '' Basics '')) example_doc))
      = [''Basics (en Intro)'']"
    by (simp add: search_v3_defs example_defs str_eval)
  show ?thesis
    using every_match_contains_query [where v = "''HOLA''" and d = example_doc
        and query = "''Intro''" and d' = example_doc and v'' = "'' Basics ''"
        and d'' = example_doc] r1 r2 r3
    by (simp add: list_all_iff)
qed

section \<open>Loading\<close>

text \<open>
  Claim C4, as the code has it. Only variant 3 memoizes: from an empty cache a successful
  call fetches once and stores the document, and the next call, whatever the network
  would answer, returns that document and leaves the page as it is, the count of requests
  included. The loaders of variants 1 and 2 make a request on every call.
\<close>

theorem loadData_memoized_v3_only:
  "(glossaryData_v3 st = None \<longrightarrow>
      loadData_v3 (Response True (Json data)) st
        = (data, st\<lparr>fetches_v3 := fetches_v3 st + 1, glossaryData_v3 := Some data\<rparr>)
      \<and> loadData_v3 outcome (snd (loadData_v3 (Response True (Json data)) st))
        = (data, snd (loadData_v3 (Response True (Json data)) st)))
   \<and> fetches_v1 (snd (loadData_v1 outcome' st')) = fetches_v1 st' + 1
   \<and> fetches_v2 (loadData_v2 outcome'' st'') = fetches_v2 st'' + 1"
proof (intro conjI impI)
  assume "glossaryData_v3 st = None"
  then show "loadData_v3 (Response True (Json data)) st
      = (data, st\<lparr>fetches_v3 := fetches_v3 st + 1, glossaryData_v3 := Some data\<rparr>)"
    by (simp add: loadData_v3_def)
  then show "loadData_v3 outcome (snd (loadData_v3 (Response True (Json data)) st))
      = (data, snd (loadData_v3 (Response True (Json data)) st))"
    by (simp add: loadData_v3_def)
next
  show "fetches_v1 (snd (loadData_v1 outcome' st')) = fetches_v1 st' + 1"
    by (simp add: loadData_v1_def Let_def split: fetch_outcome.split body.split bool.split)
  show "fetches_v2 (loadData_v2 outcome'' st'') = fetches_v2 st'' + 1"
    by (simp add: loadData_v2_def Let_def split: fetch_outcome.split body.split bool.split)
qed

theorem loadData_memoized_v3_only_witness:
  "glossaryData_v3 page_v3_init = None
   \<and> fst (loadData_v3 (Response True (Json example_doc)) page_v3_init) = example_doc
   \<and> fst (loadData_v3 Rejected (snd (loadData_v3 (Response True (Json example_doc)) page_v3_init)))
       = example_doc
   \<and> fetches_v3 (snd (loadData_v3 Rejected
         (snd (loadData_v3 (Response True (Json example_doc)) page_v3_init)))) = 1"
  using loadData_memoized_v3_only [where st = page_v3_init and data = example_doc
      and outcome = Rejected]
  by (simp add: page_v3_init_def loadData_v3_def)

text \<open>
  The claim as stated fails in variant 1: after a successful call, a second call fetches
  again and returns what the server then answers.
\<close>

theorem loadData_v1_fetches_again:
  "fst (loadData_v1 (Response True (Json []))
          (snd (loadData_v1 (Response True (Json example_doc)) page_v1_init)))
     \<noteq> fst (loadData_v1 (Response True (Json example_doc)) page_v1_init)
   \<and> fetches_v1 (snd (loadData_v1 (Response True (Json []))
          (snd (loadData_v1 (Response True (Json example_doc)) page_v1_init)))) = 2"
  by (simp add: loadData_v1_def page_v1_init_def example_doc_def)

section \<open>The image cache\<close>













section \<open>Queries on the rendered trees\<close>

lemma query_in_Nil [simp]: "query_in P [] = []"
  by (simp add: query_in_def)

lemma query_in_Cons [simp]: "query_in P (n # ns) = query_all P n @ query_in P ns"
  by (simp add: query_in_def)

lemma query_in_append [simp]: "query_in P (ms @ ns) = query_in P ms @ query_in P ns"
  by (simp add: query_in_def)

lemma query_all_Element:
  "query_all P (Element tag attrs children) =
     (if P (Element tag attrs children) then [Element tag attrs children] else [])
     @ query_in P children"
  by (simp add: query_in_def)

lemma query_in_map_none:
  "(\<And>x. x \<in> set xs \<Longrightarrow> query_all P (f x) = []) \<Longrightarrow> query_in P (map f xs) = []"
  by (induction xs) simp_all

lemma query_in_map_self:
  "(\<And>x. x \<in> set xs \<Longrightarrow> query_all P (f x) = [f x]) \<Longrightarrow> query_in P (map f xs) = map f xs"
  by (induction xs) simp_all

lemmas query_simps = query_all_Element

declare query_all.simps(2) [simp del]

lemma query_in_concat: "query_in P (concat xss) = concat (map (query_in P) xss)"
  by (induction xss) simp_all

lemma card_v2_panels: "query_all (has_class ''materia__tab-content'') (renderCard_v2 c slug) = []"
  by (simp add: renderCard_v2_def card_controls_v2_def query_simps Let_def)

lemma card_v2_sections: "query_all (has_class ''group-section'') (renderCard_v2 c slug) = []"
  by (simp add: renderCard_v2_def card_controls_v2_def query_simps Let_def)

lemma card_v2_cards: "query_all (has_class ''card'') (renderCard_v2 c slug) = [renderCard_v2 c slug]"
  by (simp add: renderCard_v2_def card_controls_v2_def query_simps Let_def)

lemma card_v2_tabs: "query_all (has_class ''materia__tab-button'') (renderCard_v2 c slug) = []"
  by (simp add: renderCard_v2_def card_controls_v2_def query_simps Let_def)

lemma group_v2_panels: "query_all (has_class ''materia__tab-content'') (renderGroup_v2 g slug) = []"
  by (simp add: renderGroup_v2_def query_simps query_in_map_none card_v2_panels)

lemma group_v2_tabs: "query_all (has_class ''materia__tab-button'') (renderGroup_v2 g slug) = []"
  by (simp add: renderGroup_v2_def query_simps query_in_map_none card_v2_tabs)

lemma group_v2_sections:
  "query_all (has_class ''group-section'') (renderGroup_v2 g slug) = [renderGroup_v2 g slug]"
  by (simp add: renderGroup_v2_def query_simps query_in_map_none card_v2_sections)

lemma group_v2_cards:
  "query_all (has_class ''card'') (renderGroup_v2 g slug) = map (\<lambda>c. renderCard_v2 c slug) (cards g)"
  by (simp add: renderGroup_v2_def query_simps query_in_map_self card_v2_cards)

lemma renderWindow_children:
  "renderWindow w m =
     Element ''div''
       [(''id'', ''window-'' @ window_id w), (''class'', ''materia__tab-content''),
        (''role'', ''tabpanel'')]
       (map (\<lambda>g. renderGroup_v2 g (subject_id m)) (shown_groups_v2 m w))"
proof -
  have "concat (map (\<lambda>groupId. case find (\<lambda>g. group_id g = groupId) gs of
                       Some grp \<Rightarrow> [renderGroup_v2 grp sid] | None \<Rightarrow> []) ids)
      = map (\<lambda>g. renderGroup_v2 g sid)
          (concat (map (\<lambda>groupId. case find (\<lambda>g. group_id g = groupId) gs of
                       Some grp \<Rightarrow> [grp] | None \<Rightarrow> []) ids))" for gs sid ids
    by (induction ids) (simp_all split: option.split)
  then show ?thesis by (simp add: renderWindow_def shown_groups_v2_def)
qed

lemma find_by_id_distinct:
  "distinct (map group_id gs) \<Longrightarrow> g \<in> set gs \<Longrightarrow> find (\<lambda>x. group_id x = group_id g) gs = Some g"
  by (induction gs) (auto simp: image_iff)

lemma find_SomeD: "find P xs = Some x \<Longrightarrow> x \<in> set xs \<and> P x"
  by (induction xs) (auto split: if_splits)

lemma shown_groups_v2_set:
  assumes "distinct (map group_id (groups m))"
  shows "set (shown_groups_v2 m w) = set (groups_of_window m w)"
proof
  show "set (shown_groups_v2 m w) \<subseteq> set (groups_of_window m w)"
  proof
    fix g assume "g \<in> set (shown_groups_v2 m w)"
    then obtain gid where gid: "gid \<in> set (window_groups w)"
      and "find (\<lambda>x. group_id x = gid) (groups m) = Some g"
      by (auto simp: shown_groups_v2_def split: option.splits)
    then have "g \<in> set (groups m) \<and> group_id g = gid" by (intro find_SomeD)
    with gid show "g \<in> set (groups_of_window m w)" by (simp add: groups_of_window_def)
  qed
next
  show "set (groups_of_window m w) \<subseteq> set (shown_groups_v2 m w)"
  proof
    fix g assume "g \<in> set (groups_of_window m w)"
    then have g: "g \<in> set (groups m)" "group_id g \<in> set (window_groups w)"
      by (simp_all add: groups_of_window_def)
    have "find (\<lambda>x. group_id x = group_id g) (groups m) = Some g"
      using assms g(1) by (rule find_by_id_distinct)
    with g(2) show "g \<in> set (shown_groups_v2 m w)"
      by (force simp: shown_groups_v2_def)
  qed
qed

lemma window_v2_panels:
  "query_all (has_class ''materia__tab-content'') (renderWindow w m) = [renderWindow w m]"
  by (simp add: renderWindow_children query_simps query_in_map_none group_v2_panels)

lemma window_v2_panels_marked:
  "query_all (has_class ''materia__tab-content'') (setAttribute ''aria-hidden'' ''false'' (renderWindow w m))
     = [setAttribute ''aria-hidden'' ''false'' (renderWindow w m)]"
  by (simp add: renderWindow_children query_simps query_in_map_none group_v2_panels)

lemma window_v2_sections:
  "query_all (has_class ''group-section'') (renderWindow w m)
     = map (\<lambda>g. renderGroup_v2 g (subject_id m)) (shown_groups_v2 m w)"
  by (simp add: renderWindow_children query_simps query_in_map_self group_v2_sections)

lemma window_v2_sections_marked:
  "query_all (has_class ''group-section'') (setAttribute ''aria-hidden'' ''false'' (renderWindow w m))
     = map (\<lambda>g. renderGroup_v2 g (subject_id m)) (shown_groups_v2 m w)"
  by (simp add: renderWindow_children query_simps query_in_map_self group_v2_sections)

lemma window_v2_attrs:
  "attr ''id'' (renderWindow w m) = Some (''window-'' @ window_id w)"
  "attr ''aria-hidden'' (renderWindow w m) = None"
  "attr ''id'' (setAttribute ''aria-hidden'' ''false'' (renderWindow w m)) = Some (''window-'' @ window_id w)"
  "attr ''aria-hidden'' (setAttribute ''aria-hidden'' ''false'' (renderWindow w m)) = Some ''false''"
  by (simp_all add: renderWindow_children)

lemma tab_v2_query:
  "query_all (has_class ''materia__tab-button'') (tabButton_v2 k w) = [tabButton_v2 k w]"
  "query_all (has_class ''materia__tab-content'') (tabButton_v2 k w) = []"
  "query_all (has_class ''group-section'') (tabButton_v2 k w) = []"
  "attr ''aria-selected'' (tabButton_v2 k w) = Some (if k = 0 then ''true'' else ''false'')"
  by (simp_all add: tabButton_v2_def query_simps)

lemma window_v2_tabs:
  "query_all (has_class ''materia__tab-button'') (renderWindow w m) = []"
  "query_all (has_class ''materia__tab-button'') (setAttribute ''aria-hidden'' ''false'' (renderWindow w m)) = []"
  by (simp_all add: renderWindow_children query_simps query_in_map_none group_v2_tabs)

lemma zip_upt_later:
  "0 < k \<Longrightarrow> map (\<lambda>(index, w). f (if index = (0::nat) then a else b) w) (zip [k..<n] ws)
     = map (\<lambda>(index, w). f b w) (zip [k..<n] ws)"
  by (rule map_cong) (auto dest!: set_zip_leftD)

lemma tabs_v2_none:
  "query_in (has_class ''materia__tab-content'')
      (map (\<lambda>(index, windowData). tabButton_v2 index windowData) zs) = []"
  "query_in (has_class ''group-section'')
      (map (\<lambda>(index, windowData). tabButton_v2 index windowData) zs) = []"
  by (rule query_in_map_none, simp add: tab_v2_query split: prod.split)+

lemma tabs_v2_self:
  "query_in (has_class ''materia__tab-button'')
      (map (\<lambda>(index, windowData). tabButton_v2 index windowData) zs)
     = map (\<lambda>(index, windowData). tabButton_v2 index windowData) zs"
  by (rule query_in_map_self) (simp add: tab_v2_query split: prod.split)

lemma windows_v2_panels:
  "query_in (has_class ''materia__tab-content'') (map (\<lambda>windowData. renderWindow windowData m) ws)
     = map (\<lambda>windowData. renderWindow windowData m) ws"
  by (rule query_in_map_self) (simp add: window_v2_panels)

lemma windows_v2_tabs:
  "query_in (has_class ''materia__tab-button'') (map (\<lambda>windowData. renderWindow windowData m) ws) = []"
  by (rule query_in_map_none) (simp add: window_v2_tabs)

lemma renderMateria_v2_content_tabbed:
  assumes "find (\<lambda>x. subject_id x = i) (glossaryData_v2 st) = Some m"
    and "windows m = Some (w # ws)"
  shows "dynamicContent (snd (renderMateria_v2 i st)) =
     [Element ''div'' [(''class'', ''materia-container'')]
        [Element ''header'' [(''class'', ''materia-header'')]
           [Element ''h1'' [] [Text (code m @ '' - '' @ title m)],
            Element ''p'' [] [Text (description m)]],
         Element ''div'' [(''class'', ''materia__tabs''), (''role'', ''tablist'')]
           (map (\<lambda>(index, windowData). tabButton_v2 index windowData)
                (zip [0..<length (w # ws)] (w # ws))),
         Element ''div'' [(''class'', ''materia__windows'')]
           (setAttribute ''aria-hidden'' ''false'' (renderWindow w m)
            # map (\<lambda>windowData. renderWindow windowData m) ws)]]"
  using assms by (simp add: renderMateria_v2_def Let_def del: upt_Suc)

lemma renderMateria_v2_content_flat:
  assumes "find (\<lambda>x. subject_id x = i) (glossaryData_v2 st) = Some m"
    and "windows m = None \<or> windows m = Some []"
  shows "dynamicContent (snd (renderMateria_v2 i st)) =
     [Element ''div'' [(''class'', ''materia-container'')]
        (Element ''header'' [(''class'', ''materia-header'')]
           [Element ''h1'' [] [Text (code m @ '' - '' @ title m)],
            Element ''p'' [] [Text (description m)]]
         # map (\<lambda>grp. renderGroup_v2 grp (subject_id m)) (groups m))]"
  using assms by (auto simp: renderMateria_v2_def Let_def)

lemma renderMateria_v2_panels:
  assumes "find (\<lambda>x. subject_id x = i) (glossaryData_v2 st) = Some m"
    and "windows m = Some (w # ws)"
  shows "query_in (has_class ''materia__tab-content'') (dynamicContent (snd (renderMateria_v2 i st)))
     = setAttribute ''aria-hidden'' ''false'' (renderWindow w m)
       # map (\<lambda>windowData. renderWindow windowData m) ws"
  unfolding renderMateria_v2_content_tabbed [OF assms]
  by (simp add: query_simps tabs_v2_none window_v2_panels_marked windows_v2_panels del: upt_Suc)

lemma renderMateria_v2_tabs:
  assumes "find (\<lambda>x. subject_id x = i) (glossaryData_v2 st) = Some m"
    and "windows m = Some (w # ws)"
  shows "query_in (has_class ''materia__tab-button'') (dynamicContent (snd (renderMateria_v2 i st)))
     = map (\<lambda>(index, windowData). tabButton_v2 index windowData)
                (zip [0..<length (w # ws)] (w # ws))"
  unfolding renderMateria_v2_content_tabbed [OF assms]
  by (simp add: query_simps tabs_v2_self window_v2_tabs windows_v2_tabs del: upt_Suc)

lemma renderMateria_v2_flat:
  assumes "find (\<lambda>x. subject_id x = i) (glossaryData_v2 st) = Some m"
    and "windows m = None \<or> windows m = Some []"
  shows "query_in (has_class ''group-section'') (dynamicContent (snd (renderMateria_v2 i st)))
           = map (\<lambda>grp. renderGroup_v2 grp (subject_id m)) (groups m)"
    and "query_in (has_class ''materia__tab-content'') (dynamicContent (snd (renderMateria_v2 i st))) = []"
  unfolding renderMateria_v2_content_flat [OF assms]
  by (simp_all add: query_simps query_in_map_self query_in_map_none group_v2_sections group_v2_panels)

lemma tabs_v2_selected:
  "map (attr ''aria-selected'')
     (map (\<lambda>(index, windowData). tabButton_v2 index windowData) (zip [0..<length (w # ws)] (w # ws)))
   = Some ''true'' # map (\<lambda>_. Some ''false'') ws"
proof -
  have "map (attr ''aria-selected'') (map (\<lambda>(index, windowData). tabButton_v2 index windowData) (zip [k..<k + length ws] ws))
      = map (\<lambda>_. Some ''false'') ws" if "0 < k" for k
    using that
  proof (induction ws arbitrary: k)
    case Nil
    then show ?case by simp
  next
    case (Cons a ws)
    have "[k..<k + length (a # ws)] = k # [Suc k..<k + length (a # ws)]"
      by (rule upt_conv_Cons) simp
    then have "[k..<k + length (a # ws)] = k # [Suc k..<Suc k + length ws]"
      by simp
    with Cons.IH [of "Suc k"] Cons.prems show ?case
      by (simp add: tab_v2_query)
  qed
  from this [of 1] have rest: "map (attr ''aria-selected'') (map (\<lambda>(index, windowData). tabButton_v2 index windowData) (zip [1..<1 + length ws] ws))
      = map (\<lambda>_. Some ''false'') ws" by simp
  have "[0..<length (w # ws)] = 0 # [Suc 0..<length (w # ws)]"
    by (rule upt_conv_Cons) simp
  then have "[0..<length (w # ws)] = 0 # [1..<1 + length ws]"
    by simp
  with rest show ?thesis by (simp add: tab_v2_query)
qed

lemma card_v1_query:
  "query_all (has_class ''group'') (renderCard_v1 c) = []"
  "query_all is_tabpanel (renderCard_v1 c) = []"
  "query_all (has_class ''card'') (renderCard_v1 c) = [renderCard_v1 c]"
  by (simp_all add: renderCard_v1_def createEl_v1_def query_simps is_tabpanel_def Let_def)

lemma group_v1_query:
  "query_all (has_class ''group'') (renderGroup_v1 g) = [renderGroup_v1 g]"
  "query_all is_tabpanel (renderGroup_v1 g) = []"
  "query_all (has_class ''card'') (renderGroup_v1 g) = map renderCard_v1 (cards g)"
  by (simp_all add: renderGroup_v1_def createEl_v1_def query_simps is_tabpanel_def
      query_in_map_none query_in_map_self card_v1_query)

lemma renderMateria_v1_content:
  assumes "find (\<lambda>x. subject_id x = i) (glossaryData_v1 st) = Some s"
  shows "subjectArea (snd (renderMateria_v1 i st)) =
     [createEl_v1 ''div'' ''subject'' [] [] []
        [createEl_v1 ''div'' ''subject__header'' [] [] []
           ([createEl_v1 ''h2'' ''subject__title'' [] (code s @ '' - '' @ title s) [] []]
            @ (if description s \<noteq> []
               then [createEl_v1 ''p'' ''subject__description'' [] (description s) [] []]
               else [])),
         createEl_v1 ''div'' ''groups-container'' [] [] [] (map renderGroup_v1 (groups s))]]"
  using assms by (simp add: renderMateria_v1_def Let_def)

lemma renderMateria_v1_flat:
  assumes "find (\<lambda>x. subject_id x = i) (glossaryData_v1 st) = Some s"
  shows "query_in (has_class ''group'') (subjectArea (snd (renderMateria_v1 i st)))
           = map renderGroup_v1 (groups s)"
    and "query_in is_tabpanel (subjectArea (snd (renderMateria_v1 i st))) = []"
  unfolding renderMateria_v1_content [OF assms]
  by (simp_all add: createEl_v1_def query_simps is_tabpanel_def query_in_map_self
      query_in_map_none group_v1_query)

lemma card_v3_query:
  "query_all (has_class ''materia__group'') (renderCard_v3 c g) = []"
  "query_all is_tabpanel (renderCard_v3 c g) = []"
  "query_all (has_class ''materia__tab'') (renderCard_v3 c g) = []"
  "query_all (has_class ''card'') (renderCard_v3 c g) = [renderCard_v3 c g]"
  by (simp_all add: renderCard_v3_def card_actions_v3_def thumbnail_v3_def query_simps
      is_tabpanel_def)

lemma group_v3_query:
  "query_all (has_class ''materia__group'') (renderGroup_v3 g) = [renderGroup_v3 g]"
  "query_all is_tabpanel (renderGroup_v3 g) = []"
  "query_all (has_class ''materia__tab'') (renderGroup_v3 g) = []"
  "query_all (has_class ''card'') (renderGroup_v3 g) = map (\<lambda>c. renderCard_v3 c g) (cards g)"
  by (simp_all add: renderGroup_v3_def query_simps is_tabpanel_def query_in_map_none
      query_in_map_self card_v3_query)

lemma window_v3_query:
  "query_all is_tabpanel (window_v3 m k w) = [window_v3 m k w]"
  "query_all (has_class ''materia__group'') (window_v3 m k w)
     = map renderGroup_v3 (groups_of_window m w)"
  "query_all (has_class ''materia__tab'') (window_v3 m k w) = []"
  "attr ''id'' (window_v3 m k w) = Some (''window-'' @ window_id w)"
  "has_class ''materia__window--active'' (window_v3 m k w) = (k = 0)"
  by (simp_all add: window_v3_def query_simps is_tabpanel_def query_in_map_none
      query_in_map_self group_v3_query groups_of_window_def)

lemma tab_v3_query:
  "query_all is_tabpanel (tab_v3 k w) = []"
  "query_all (has_class ''materia__tab'') (tab_v3 k w) = [tab_v3 k w]"
  "attr ''aria-selected'' (tab_v3 k w) = Some (if k = 0 then ''true'' else ''false'')"
  "has_class ''materia__tab--active'' (tab_v3 k w) = (k = 0)"
  by (simp_all add: tab_v3_def query_simps is_tabpanel_def)

lemma renderMateria_v3_content:
  assumes "glossaryData_v3 st = Some doc"
    and "find (\<lambda>x. subject_id x = i) doc = Some m"
    and "windows m = Some ws"
  shows "fst (renderMateria_v3 i st) = None"
    and "dynamicContentArea (snd (renderMateria_v3 i st)) =
     [Element ''article'' [(''class'', ''materia''), (''id'', subject_id m)]
        [Element ''header'' [(''class'', ''materia__header'')]
           [Element ''span'' [(''class'', ''materia__code'')] [Text (code m)],
            Element ''h2'' [(''class'', ''materia__title'')] [Text (title m)],
            Element ''p'' [(''class'', ''materia__description'')] [Text (description m)]],
         Element ''div'' [(''class'', ''materia__tabs''), (''role'', ''tablist'')]
           (map (\<lambda>(index, w). tab_v3 index w) (zip [0..<length ws] ws)),
         Element ''div'' [(''class'', ''materia__content'')]
           (map (\<lambda>(index, w). window_v3 m index w) (zip [0..<length ws] ws))]]"
  using assms by (simp_all add: renderMateria_v3_def Let_def)

lemma renderMateria_v3_panels:
  assumes "glossaryData_v3 st = Some doc"
    and "find (\<lambda>x. subject_id x = i) doc = Some m"
    and "windows m = Some ws"
  shows "query_in is_tabpanel (dynamicContentArea (snd (renderMateria_v3 i st)))
     = map (\<lambda>(index, w). window_v3 m index w) (zip [0..<length ws] ws)"
proof -
  have a: "query_in is_tabpanel (map (\<lambda>(index, w). tab_v3 index w) zs) = []" for zs
    by (rule query_in_map_none) (simp add: tab_v3_query split: prod.split)
  have b: "query_in is_tabpanel (map (\<lambda>(index, w). window_v3 m index w) zs)
      = map (\<lambda>(index, w). window_v3 m index w) zs" for zs
    by (rule query_in_map_self) (simp add: window_v3_query split: prod.split)
  show ?thesis
    unfolding renderMateria_v3_content(2) [OF assms]
    by (simp add: query_simps a b) (simp add: is_tabpanel_def)
qed

lemma renderMateria_v3_tabs:
  assumes "glossaryData_v3 st = Some doc"
    and "find (\<lambda>x. subject_id x = i) doc = Some m"
    and "windows m = Some ws"
  shows "query_in (has_class ''materia__tab'') (dynamicContentArea (snd (renderMateria_v3 i st)))
     = map (\<lambda>(index, w). tab_v3 index w) (zip [0..<length ws] ws)"
proof -
  have a: "query_in (has_class ''materia__tab'') (map (\<lambda>(index, w). tab_v3 index w) zs)
      = map (\<lambda>(index, w). tab_v3 index w) zs" for zs
    by (rule query_in_map_self) (simp add: tab_v3_query split: prod.split)
  have b: "query_in (has_class ''materia__tab'') (map (\<lambda>(index, w). window_v3 m index w) zs) = []"
    for zs
    by (rule query_in_map_none) (simp add: window_v3_query split: prod.split)
  show ?thesis
    unfolding renderMateria_v3_content(2) [OF assms]
    by (simp add: query_simps a b)
qed

section \<open>Rendering a subject\<close>

lemmas page_defs = loaded_v1_def loaded_v2_def loaded_v3_def page_v1_init_def page_v2_init_def
  page_v3_init_def loadData_v1_def loadData_v2_def loadData_v3_def

text \<open>
  Claim C5, as the code has it. For an id that no subject of the loaded document has,
  no variant raises or returns an error: \<^verbatim>\<open>renderMateria\<close> logs the id with
  \<^verbatim>\<open>console.error\<close> and returns as it does after a successful render. Variant 2 replaces
  the content by a paragraph saying that the subject was not found. In variant 1 the
  current subject stays what it was.
\<close>

theorem unknown_id_logged_not_signalled:
  "(find (\<lambda>x. subject_id x = i) (glossaryData_v1 st) = None \<longrightarrow>
      fst (renderMateria_v1 i st) = None
      \<and> console_v1 (snd (renderMateria_v1 i st)) = console_v1 st @ [''Materia no encontrada: '' @ i]
      \<and> currentSubjectId (snd (renderMateria_v1 i st)) = currentSubjectId st)
   \<and> (find (\<lambda>x. subject_id x = i') (glossaryData_v2 st') = None \<longrightarrow>
      renderMateria_v2 i' st'
        = (None, st'\<lparr>console_v2 := console_v2 st' @ [''Materia no encontrada: '' @ i'],
                       dynamicContent := [not_found_v2]\<rparr>)
      \<and> text_of (dynamicContent (snd (renderMateria_v2 i' st')))
          = ''Lo sentimos, la materia no fue encontrada.'')
   \<and> (glossaryData_v3 st'' = Some doc \<and> find (\<lambda>x. subject_id x = i'') doc = None \<longrightarrow>
      fst (renderMateria_v3 i'' st'') = None
      \<and> console_v3 (snd (renderMateria_v3 i'' st''))
          = console_v3 st'' @ [''Materia con id '' @ [CHR 0x22] @ i'' @ [CHR 0x22]
                               @ '' no encontrada.''])"
  by (simp add: renderMateria_v1_def renderMateria_v2_def renderMateria_v3_def not_found_v2_def
      text_of_def)

theorem unknown_id_logged_not_signalled_witness:
  "find (\<lambda>x. subject_id x = ''missing'') (glossaryData_v1 (loaded_v1 example_doc)) = None
   \<and> fst (renderMateria_v1 ''missing'' (loaded_v1 example_doc)) = None
   \<and> console_v1 (snd (renderMateria_v1 ''missing'' (loaded_v1 example_doc)))
       = [''Materia no encontrada: missing'']
   \<and> fst (renderMateria_v2 ''missing'' (loaded_v2 example_doc)) = None
   \<and> dynamicContent (snd (renderMateria_v2 ''missing'' (loaded_v2 example_doc))) = [not_found_v2]
   \<and> fst (renderMateria_v3 ''missing'' (loaded_v3 example_doc)) = None"
  using unknown_id_logged_not_signalled [where i = "''missing''" and st = "loaded_v1 example_doc"
      and i' = "''missing''" and st' = "loaded_v2 example_doc"
      and i'' = "''missing''" and st'' = "loaded_v3 example_doc" and doc = example_doc]
  by (simp add: page_defs example_defs)

text \<open>
  The claim as stated fails in variant 1: no error reaches the caller, and the content
  area keeps showing the subject rendered before instead of a placeholder.
\<close>

theorem unknown_id_leaves_subject_shown_v1:
  "find (\<lambda>x. subject_id x = ''missing'') (glossaryData_v1 shown_v1) = None
   \<and> fst (renderMateria_v1 ''missing'' shown_v1) = None
   \<and> text_of (subjectArea (snd (renderMateria_v1 ''missing'' shown_v1)))
       = ''101 - IntroBasicsholahelloES: saludoEN: greetingExpandir''"
  by (simp add: shown_v1_def renderMateria_v1_def renderGroup_v1_def renderCard_v1_def
      createEl_v1_def page_defs example_defs text_of_def Let_def)

section \<open>Rendering twice\<close>

lemma renderMateria_v1_keeps_data:
  "glossaryData_v1 (snd (renderMateria_v1 i st)) = glossaryData_v1 st"
  by (simp add: renderMateria_v1_def Let_def split: option.split)

lemma renderMateria_v2_keeps_data:
  "glossaryData_v2 (snd (renderMateria_v2 i st)) = glossaryData_v2 st"
  by (simp add: renderMateria_v2_def Let_def split: option.split)

lemma renderMateria_v3_keeps_data:
  "glossaryData_v3 (snd (renderMateria_v3 i st)) = glossaryData_v3 st"
  by (simp add: renderMateria_v3_def Let_def split: option.split)

lemma renderMateria_v1_same_content:
  assumes "find (\<lambda>x. subject_id x = i) (glossaryData_v1 st) \<noteq> None"
    and "glossaryData_v1 st' = glossaryData_v1 st"
  shows "subjectArea (snd (renderMateria_v1 i st')) = subjectArea (snd (renderMateria_v1 i st))"
  using assms by (auto simp: renderMateria_v1_def Let_def)

lemma renderMateria_v2_same_content:
  assumes "glossaryData_v2 st' = glossaryData_v2 st"
  shows "dynamicContent (snd (renderMateria_v2 i st')) = dynamicContent (snd (renderMateria_v2 i st))"
  using assms by (simp add: renderMateria_v2_def Let_def split: option.split)

lemma renderMateria_v3_same_content:
  assumes "glossaryData_v3 st = Some doc" "find (\<lambda>x. subject_id x = i) doc = Some m"
    and "windows m \<noteq> None" and "glossaryData_v3 st' = glossaryData_v3 st"
  shows "dynamicContentArea (snd (renderMateria_v3 i st'))
           = dynamicContentArea (snd (renderMateria_v3 i st))"
  using assms by (auto simp: renderMateria_v3_def Let_def)

lemma renderMateria_v3_same_outcome:
  assumes "glossaryData_v3 st' = glossaryData_v3 st"
  shows "fst (renderMateria_v3 i st') = fst (renderMateria_v3 i st)"
  using assms by (simp add: renderMateria_v3_def Let_def split: option.split)

lemmas render_v1_defs = renderMateria_v1_def renderGroup_v1_def renderCard_v1_def createEl_v1_def
lemmas render_v2_defs = renderMateria_v2_def renderGroup_v2_def renderCard_v2_def
  card_controls_v2_def renderWindow_def tabButton_v2_def
lemmas render_v3_defs = renderMateria_v3_def renderGroup_v3_def renderCard_v3_def
  card_actions_v3_def thumbnail_v3_def window_v3_def tab_v3_def

lemma example_text_v1:
  "text_of (subjectArea (snd (renderMateria_v1 ''S1'' (loaded_v1 example_doc))))
     = ''101 - IntroBasicsholahelloES: saludoEN: greetingExpandir''"
  by (simp add: render_v1_defs page_defs example_defs text_of_def Let_def)

lemma example_cards_v1:
  "card_count (subjectArea (snd (renderMateria_v1 ''S1'' (loaded_v1 example_doc)))) = 1"
  by (simp add: render_v1_defs page_defs example_defs card_count_def query_all_Element Let_def)

lemma example_cards_v2:
  "card_count (dynamicContent (snd (renderMateria_v2 ''S2'' (loaded_v2 windowed_doc)))) = 2"
  by (simp add: render_v2_defs page_defs windowed_doc_def windowed_subject_def card_count_def
      query_all_Element Let_def)

lemma example_cards_v3:
  "card_count (dynamicContentArea (snd (renderMateria_v3 ''S2'' (loaded_v3 windowed_doc)))) = 2"
  by (simp add: render_v3_defs page_defs windowed_doc_def windowed_subject_def card_count_def
      query_all_Element Let_def)

lemma renderMateria_v1_in_a_row:
  "subjectArea (snd (renderMateria_v1 i (snd (renderMateria_v1 i st))))
     = subjectArea (snd (renderMateria_v1 i st))"
  by (simp add: renderMateria_v1_def Let_def split: option.split)

lemma renderMateria_v3_in_a_row:
  "dynamicContentArea (snd (renderMateria_v3 i (snd (renderMateria_v3 i st))))
     = dynamicContentArea (snd (renderMateria_v3 i st))"
  by (simp add: renderMateria_v3_def Let_def split: option.split)

text \<open>
  What \<^verbatim>\<open>renderMateria\<close> puts into the content area depends on the id and the loaded
  document only, not on what the page showed, logged or cached before. In variant 1 this
  holds for an id that is present, in variant 2 for every id, in variant 3 for an id whose
  subject has its windows. In every variant a second call in a row leaves the content
  of the first, and in variant 3 two calls on the same document agree on whether an error
  is thrown.
\<close>

lemma render_depends_on_id_and_document_only:
  "(find (\<lambda>x. subject_id x = i) (glossaryData_v1 st) \<noteq> None
      \<and> glossaryData_v1 st' = glossaryData_v1 st \<longrightarrow>
      text_of (subjectArea (snd (renderMateria_v1 i st')))
        = text_of (subjectArea (snd (renderMateria_v1 i st)))
      \<and> card_count (subjectArea (snd (renderMateria_v1 i st')))
        = card_count (subjectArea (snd (renderMateria_v1 i st))))
   \<and> subjectArea (snd (renderMateria_v1 i (snd (renderMateria_v1 i st))))
       = subjectArea (snd (renderMateria_v1 i st))
   \<and> (glossaryData_v2 t' = glossaryData_v2 t \<longrightarrow>
      text_of (dynamicContent (snd (renderMateria_v2 j t')))
        = text_of (dynamicContent (snd (renderMateria_v2 j t)))
      \<and> card_count (dynamicContent (snd (renderMateria_v2 j t')))
        = card_count (dynamicContent (snd (renderMateria_v2 j t)))
      \<and> dynamicContent (snd (renderMateria_v2 j (snd (renderMateria_v2 j t))))
        = dynamicContent (snd (renderMateria_v2 j t)))
   \<and> (glossaryData_v3 u' = glossaryData_v3 u \<longrightarrow>
      fst (renderMateria_v3 k u') = fst (renderMateria_v3 k u))
   \<and> (glossaryData_v3 u = Some doc \<and> find (\<lambda>x. subject_id x = k) doc = Some m
      \<and> windows m \<noteq> None \<and> glossaryData_v3 u' = glossaryData_v3 u \<longrightarrow>
      text_of (dynamicContentArea (snd (renderMateria_v3 k u')))
        = text_of (dynamicContentArea (snd (renderMateria_v3 k u)))
      \<and> card_count (dynamicContentArea (snd (renderMateria_v3 k u')))
        = card_count (dynamicContentArea (snd (renderMateria_v3 k u))))
   \<and> dynamicContentArea (snd (renderMateria_v3 k (snd (renderMateria_v3 k u))))
       = dynamicContentArea (snd (renderMateria_v3 k u))"
proof (intro conjI impI)
  assume a: "find (\<lambda>x. subject_id x = i) (glossaryData_v1 st) \<noteq> None
      \<and> glossaryData_v1 st' = glossaryData_v1 st"
  then have eq: "subjectArea (snd (renderMateria_v1 i st')) = subjectArea (snd (renderMateria_v1 i st))"
    by (intro renderMateria_v1_same_content) simp_all
  show "text_of (subjectArea (snd (renderMateria_v1 i st')))
        = text_of (subjectArea (snd (renderMateria_v1 i st)))"
    by (simp only: eq)
  show "card_count (subjectArea (snd (renderMateria_v1 i st')))
        = card_count (subjectArea (snd (renderMateria_v1 i st)))"
    by (simp only: eq)
next
  show "subjectArea (snd (renderMateria_v1 i (snd (renderMateria_v1 i st))))
       = subjectArea (snd (renderMateria_v1 i st))"
    by (rule renderMateria_v1_in_a_row)
next
  assume a: "glossaryData_v2 t' = glossaryData_v2 t"
  then have eq: "dynamicContent (snd (renderMateria_v2 j t')) = dynamicContent (snd (renderMateria_v2 j t))"
    by (rule renderMateria_v2_same_content)
  show "text_of (dynamicContent (snd (renderMateria_v2 j t')))
        = text_of (dynamicContent (snd (renderMateria_v2 j t)))"
    by (simp only: eq)
  show "card_count (dynamicContent (snd (renderMateria_v2 j t')))
        = card_count (dynamicContent (snd (renderMateria_v2 j t)))"
    by (simp only: eq)
  show "dynamicContent (snd (renderMateria_v2 j (snd (renderMateria_v2 j t))))
        = dynamicContent (snd (renderMateria_v2 j t))"
    by (intro renderMateria_v2_same_content) (simp add: renderMateria_v2_keeps_data)
next
  assume "glossaryData_v3 u' = glossaryData_v3 u"
  then show "fst (renderMateria_v3 k u') = fst (renderMateria_v3 k u)"
    by (rule renderMateria_v3_same_outcome)
next
  assume a: "glossaryData_v3 u = Some doc \<and> find (\<lambda>x. subject_id x = k) doc = Some m
      \<and> windows m \<noteq> None \<and> glossaryData_v3 u' = glossaryData_v3 u"
  then have eq: "dynamicContentArea (snd (renderMateria_v3 k u'))
      = dynamicContentArea (snd (renderMateria_v3 k u))"
    by (intro renderMateria_v3_same_content [of u doc k m]) simp_all
  show "text_of (dynamicContentArea (snd (renderMateria_v3 k u')))
        = text_of (dynamicContentArea (snd (renderMateria_v3 k u)))"
    by (simp only: eq)
  show "card_count (dynamicContentArea (snd (renderMateria_v3 k u')))
        = card_count (dynamicContentArea (snd (renderMateria_v3 k u)))"
    by (simp only: eq)
next
  show "dynamicContentArea (snd (renderMateria_v3 k (snd (renderMateria_v3 k u))))
       = dynamicContentArea (snd (renderMateria_v3 k u))"
    by (rule renderMateria_v3_in_a_row)
qed

lemma render_depends_on_id_and_document_only_example:
  "text_of (subjectArea (snd (renderMateria_v1 ''S1'' shown_v1)))
     = ''101 - IntroBasicsholahelloES: saludoEN: greetingExpandir''
   \<and> text_of (subjectArea (snd (renderMateria_v1 ''S1'' (loaded_v1 example_doc))))
     = ''101 - IntroBasicsholahelloES: saludoEN: greetingExpandir''
   \<and> card_count (subjectArea (snd (renderMateria_v1 ''S1'' shown_v1))) = 1
   \<and> card_count (dynamicContent (snd (renderMateria_v2 ''S2''
         (snd (renderMateria_v2 ''missing'' (loaded_v2 windowed_doc)))))) = 2
   \<and> card_count (dynamicContentArea (snd (renderMateria_v3 ''S2''
         (snd (renderMateria_v3 ''S2'' (loaded_v3 windowed_doc)))))) = 2"
proof -
  have h1: "find (\<lambda>x. subject_id x = ''S1'') (glossaryData_v1 (loaded_v1 example_doc)) \<noteq> None
      \<and> glossaryData_v1 shown_v1 = glossaryData_v1 (loaded_v1 example_doc)"
    by (simp add: shown_v1_def renderMateria_v1_keeps_data) (simp add: page_defs example_defs)
  have h2: "glossaryData_v2 (snd (renderMateria_v2 ''missing'' (loaded_v2 windowed_doc)))
      = glossaryData_v2 (loaded_v2 windowed_doc)"
    by (rule renderMateria_v2_keeps_data)
  have h3: "glossaryData_v3 (loaded_v3 windowed_doc) = Some windowed_doc
      \<and> find (\<lambda>x. subject_id x = ''S2'') windowed_doc = Some windowed_subject
      \<and> windows windowed_subject \<noteq> None
      \<and> glossaryData_v3 (snd (renderMateria_v3 ''S2'' (loaded_v3 windowed_doc)))
          = glossaryData_v3 (loaded_v3 windowed_doc)"
    by (simp add: renderMateria_v3_keeps_data) (simp add: page_defs windowed_doc_def windowed_subject_def)
  show ?thesis
    using render_depends_on_id_and_document_only [where i = "''S1''"
        and st = "loaded_v1 example_doc" and st' = shown_v1 and j = "''S2''"
        and t = "loaded_v2 windowed_doc"
        and t' = "snd (renderMateria_v2 ''missing'' (loaded_v2 windowed_doc))"
        and k = "''S2''" and u = "loaded_v3 windowed_doc" and doc = windowed_doc
        and m = windowed_subject
        and u' = "snd (renderMateria_v3 ''S2'' (loaded_v3 windowed_doc))"]
      h1 h2 h3 example_text_v1 example_cards_v1 example_cards_v2 example_cards_v3
    by simp
qed

lemma mixed_facts:
  "find (\<lambda>x. subject_id x = ''S1'') mixed_doc = Some example_subject"
  "find (\<lambda>x. subject_id x = ''S2'') mixed_doc = Some windowed_subject"
  "glossaryData_v3 (loaded_v3 mixed_doc) = Some mixed_doc"
  "dynamicContentArea (loaded_v3 mixed_doc) = []"
  by (simp_all add: mixed_doc_def example_defs windowed_subject_def page_defs)

lemma example_text_v3:
  "text_of (dynamicContentArea (snd (renderMateria_v3 ''S2'' (loaded_v3 mixed_doc))))
     = ''202RedesCursoUnoDosRutasrutaGirarAmpliarrouteES: camino...EN: path...GirarAmpliarCapasredGirarAmpliarnetworkES: malla...EN: mesh...GirarAmpliar''"
  by (simp add: render_v3_defs page_defs mixed_doc_def example_defs windowed_subject_def
      text_of_def Let_def)

lemma example_cards_mixed_v3:
  "card_count (dynamicContentArea (snd (renderMateria_v3 ''S2'' (loaded_v3 mixed_doc)))) = 2"
  by (simp add: render_v3_defs page_defs mixed_doc_def example_defs windowed_subject_def
      card_count_def query_all_Element Let_def)

lemma renderMateria_v3_throws_keeps_content:
  assumes "glossaryData_v3 st = Some doc" "find (\<lambda>x. subject_id x = i) doc = Some m"
    and "windows m = None"
  shows "fst (renderMateria_v3 i st) = Some TypeError"
    and "dynamicContentArea (snd (renderMateria_v3 i st)) = dynamicContentArea st"
  using assms by (simp_all add: renderMateria_v3_def Let_def)

text \<open>
  Claim C7 at an id of variant 3 whose subject has no windows, the example subject of the
  specification. On a page that holds that subject and one with windows, the render of
  \<open>S1\<close> throws a TypeError and builds nothing, so the content area keeps what it had:
  nothing on the fresh page, the two cards of \<open>S2\<close> on the page that showed \<open>S2\<close> before.
  The two calls have the same id and the same document, and leave content of different
  text and a different number of cards.
\<close>

theorem render_without_windows_differs_v3:
  "find (\<lambda>x. subject_id x = ''S1'') mixed_doc = Some example_subject
   \<and> glossaryData_v3 (snd (renderMateria_v3 ''S2'' (loaded_v3 mixed_doc)))
       = glossaryData_v3 (loaded_v3 mixed_doc)
   \<and> fst (renderMateria_v3 ''S1'' (loaded_v3 mixed_doc)) = Some TypeError
   \<and> fst (renderMateria_v3 ''S1'' (snd (renderMateria_v3 ''S2'' (loaded_v3 mixed_doc))))
       = Some TypeError
   \<and> text_of (dynamicContentArea (snd (renderMateria_v3 ''S1'' (loaded_v3 mixed_doc)))) = []
   \<and> text_of (dynamicContentArea
         (snd (renderMateria_v3 ''S1'' (snd (renderMateria_v3 ''S2'' (loaded_v3 mixed_doc))))))
       = ''202RedesCursoUnoDosRutasrutaGirarAmpliarrouteES: camino...EN: path...GirarAmpliarCapasredGirarAmpliarnetworkES: malla...EN: mesh...GirarAmpliar''
   \<and> card_count (dynamicContentArea (snd (renderMateria_v3 ''S1'' (loaded_v3 mixed_doc)))) = 0
   \<and> card_count (dynamicContentArea
         (snd (renderMateria_v3 ''S1'' (snd (renderMateria_v3 ''S2'' (loaded_v3 mixed_doc))))))
       = 2"
proof -
  have nowin: "windows example_subject = None" by (simp add: example_subject_def)
  have same: "glossaryData_v3 (snd (renderMateria_v3 ''S2'' (loaded_v3 mixed_doc)))
      = Some mixed_doc"
    by (simp add: renderMateria_v3_keeps_data mixed_facts)
  note fresh = renderMateria_v3_throws_keeps_content [OF mixed_facts(3) mixed_facts(1) nowin]
  note later = renderMateria_v3_throws_keeps_content [OF same mixed_facts(1) nowin]
  show ?thesis
    by (simp add: fresh later same mixed_facts example_text_v3 example_cards_mixed_v3)
      (simp add: text_of_def card_count_def)
qed

section \<open>Windows as tab panels\<close>

lemma list_all2_indexed:
  assumes "\<And>k. k < length ws \<Longrightarrow> Q (f k (ws ! k)) (ws ! k)"
  shows "list_all2 Q (map (\<lambda>(index, w). f index w) (zip [0..<length ws] ws)) ws"
  using assms by (simp add: list_all2_conv_all_nth)

lemma panels_v2_rule:
  assumes "distinct (map group_id (groups m))"
  shows "attr ''id'' (renderWindow wd m) = Some (''window-'' @ window_id wd)
     \<and> set (query_all (has_class ''group-section'') (renderWindow wd m))
         = (\<lambda>g. renderGroup_v2 g (subject_id m)) ` set (groups_of_window m wd)"
    and "attr ''id'' (setAttribute ''aria-hidden'' ''false'' (renderWindow wd m))
           = Some (''window-'' @ window_id wd)
     \<and> set (query_all (has_class ''group-section'')
               (setAttribute ''aria-hidden'' ''false'' (renderWindow wd m)))
         = (\<lambda>g. renderGroup_v2 g (subject_id m)) ` set (groups_of_window m wd)"
  using shown_groups_v2_set [OF assms, of wd]
  by (simp_all add: window_v2_attrs window_v2_sections window_v2_sections_marked)

lemma windowed_facts:
  "windows windowed_subject
     = Some [\<lparr>window_id = ''w1'', window_title = ''Uno'', window_groups = [''GB'']\<rparr>,
             \<lparr>window_id = ''w2'', window_title = ''Dos'', window_groups = [''GA'']\<rparr>]"
  "distinct (map group_id (groups windowed_subject))"
  "find (\<lambda>x. subject_id x = ''S2'') windowed_doc = Some windowed_subject"
  "glossaryData_v1 (loaded_v1 windowed_doc) = windowed_doc"
  "glossaryData_v2 (loaded_v2 windowed_doc) = windowed_doc"
  "glossaryData_v3 (loaded_v3 windowed_doc) = Some windowed_doc"
  by (simp_all add: windowed_doc_def windowed_subject_def page_defs)

lemma example_facts:
  "windows example_subject = None"
  "length (groups example_subject) = 1"
  "find (\<lambda>x. subject_id x = ''S1'') example_doc = Some example_subject"
  "glossaryData_v2 (loaded_v2 example_doc) = example_doc"
  "glossaryData_v3 (loaded_v3 example_doc) = Some example_doc"
  by (simp_all add: example_defs page_defs)

text \<open>
  Claim C6, as the code has it.
  Variant 2, for a subject with a non-empty list of windows and groups of distinct ids:
  the panels of the content correspond one to one, in order, to the windows; the panel
  of a window has the id of the window and holds the sections of exactly the groups the
  window refers to; only the first panel carries \<^verbatim>\<open>aria-hidden="false"\<close> and only the
  first tab \<^verbatim>\<open>aria-selected="true"\<close>. For a subject with no windows, or with an empty
  list, the group sections of the content are the subject's groups in order, and there
  is no panel.
  Variant 3, for a subject with windows: the render returns normally; the panels
  correspond one to one to the windows, each holding the sections of the groups its
  window refers to, in the order of the subject; only the first panel is active and only
  the first tab selected.
  Variant 1 has no windows: the group sections are the subject's groups in order and
  there is no panel, whatever the subject defines.
\<close>

theorem windows_render_as_tab_panels:
  "(find (\<lambda>x. subject_id x = i) (glossaryData_v2 st) = Some m \<and> windows m = Some (w # ws)
      \<and> distinct (map group_id (groups m)) \<longrightarrow>
      list_all2
        (\<lambda>panel wd. attr ''id'' panel = Some (''window-'' @ window_id wd)
           \<and> set (query_all (has_class ''group-section'') panel)
               = (\<lambda>g. renderGroup_v2 g (subject_id m)) ` set (groups_of_window m wd))
        (query_in (has_class ''materia__tab-content'') (dynamicContent (snd (renderMateria_v2 i st))))
        (w # ws)
      \<and> map (attr ''aria-hidden'')
            (query_in (has_class ''materia__tab-content'')
               (dynamicContent (snd (renderMateria_v2 i st))))
          = Some ''false'' # map (\<lambda>_. None) ws
      \<and> map (attr ''aria-selected'')
            (query_in (has_class ''materia__tab-button'')
               (dynamicContent (snd (renderMateria_v2 i st))))
          = Some ''true'' # map (\<lambda>_. Some ''false'') ws)
   \<and> (find (\<lambda>x. subject_id x = j) (glossaryData_v2 t) = Some n
      \<and> (windows n = None \<or> windows n = Some []) \<longrightarrow>
      query_in (has_class ''group-section'') (dynamicContent (snd (renderMateria_v2 j t)))
        = map (\<lambda>grp. renderGroup_v2 grp (subject_id n)) (groups n)
      \<and> query_in (has_class ''materia__tab-content'')
           (dynamicContent (snd (renderMateria_v2 j t))) = [])
   \<and> (glossaryData_v3 st'' = Some doc \<and> find (\<lambda>x. subject_id x = i'') doc = Some m''
      \<and> windows m'' = Some ws'' \<longrightarrow>
      fst (renderMateria_v3 i'' st'') = None
      \<and> list_all2
          (\<lambda>panel wd. attr ''id'' panel = Some (''window-'' @ window_id wd)
             \<and> query_all (has_class ''materia__group'') panel
                 = map renderGroup_v3 (groups_of_window m'' wd))
          (query_in is_tabpanel (dynamicContentArea (snd (renderMateria_v3 i'' st''))))
          ws''
      \<and> (\<forall>k < length ws''.
            has_class ''materia__window--active''
              (query_in is_tabpanel (dynamicContentArea (snd (renderMateria_v3 i'' st''))) ! k)
              = (k = 0)
            \<and> attr ''aria-selected''
                (query_in (has_class ''materia__tab'')
                   (dynamicContentArea (snd (renderMateria_v3 i'' st''))) ! k)
              = Some (if k = 0 then ''true'' else ''false'')))
   \<and> (find (\<lambda>x. subject_id x = i') (glossaryData_v1 st') = Some s \<longrightarrow>
      query_in (has_class ''group'') (subjectArea (snd (renderMateria_v1 i' st')))
        = map renderGroup_v1 (groups s)
      \<and> query_in is_tabpanel (subjectArea (snd (renderMateria_v1 i' st'))) = [])"
proof (intro conjI impI)
  assume a: "find (\<lambda>x. subject_id x = i) (glossaryData_v2 st) = Some m \<and> windows m = Some (w # ws)
      \<and> distinct (map group_id (groups m))"
  then have found: "find (\<lambda>x. subject_id x = i) (glossaryData_v2 st) = Some m"
    and win: "windows m = Some (w # ws)" and dist: "distinct (map group_id (groups m))"
    by simp_all
  note panels = renderMateria_v2_panels [OF found win]
  show "list_all2
        (\<lambda>panel wd. attr ''id'' panel = Some (''window-'' @ window_id wd)
           \<and> set (query_all (has_class ''group-section'') panel)
               = (\<lambda>g. renderGroup_v2 g (subject_id m)) ` set (groups_of_window m wd))
        (query_in (has_class ''materia__tab-content'') (dynamicContent (snd (renderMateria_v2 i st))))
        (w # ws)"
    unfolding panels
    using panels_v2_rule [OF dist]
    by (simp add: list_all2_map1 list_all2_same)
  show "map (attr ''aria-hidden'')
            (query_in (has_class ''materia__tab-content'')
               (dynamicContent (snd (renderMateria_v2 i st))))
          = Some ''false'' # map (\<lambda>_. None) ws"
    unfolding panels by (simp add: window_v2_attrs)
  show "map (attr ''aria-selected'')
            (query_in (has_class ''materia__tab-button'')
               (dynamicContent (snd (renderMateria_v2 i st))))
          = Some ''true'' # map (\<lambda>_. Some ''false'') ws"
    unfolding renderMateria_v2_tabs [OF found win] by (rule tabs_v2_selected)
next
  assume a: "find (\<lambda>x. subject_id x = j) (glossaryData_v2 t) = Some n
      \<and> (windows n = None \<or> windows n = Some [])"
  then show "query_in (has_class ''group-section'') (dynamicContent (snd (renderMateria_v2 j t)))
        = map (\<lambda>grp. renderGroup_v2 grp (subject_id n)) (groups n)"
    by (intro renderMateria_v2_flat) simp_all
  from a show "query_in (has_class ''materia__tab-content'')
           (dynamicContent (snd (renderMateria_v2 j t))) = []"
    by (intro renderMateria_v2_flat [of j t n]) simp_all
next
  assume a: "glossaryData_v3 st'' = Some doc \<and> find (\<lambda>x. subject_id x = i'') doc = Some m''
      \<and> windows m'' = Some ws''"
  then have cache: "glossaryData_v3 st'' = Some doc"
    and found: "find (\<lambda>x. subject_id x = i'') doc = Some m''"
    and win: "windows m'' = Some ws''"
    by simp_all
  note panels = renderMateria_v3_panels [OF cache found win]
  note tabs = renderMateria_v3_tabs [OF cache found win]
  show "fst (renderMateria_v3 i'' st'') = None"
    using cache found win by (rule renderMateria_v3_content)
  show "list_all2
          (\<lambda>panel wd. attr ''id'' panel = Some (''window-'' @ window_id wd)
             \<and> query_all (has_class ''materia__group'') panel
                 = map renderGroup_v3 (groups_of_window m'' wd))
          (query_in is_tabpanel (dynamicContentArea (snd (renderMateria_v3 i'' st''))))
          ws''"
    unfolding panels by (rule list_all2_indexed) (simp add: window_v3_query)
  show "\<forall>k < length ws''.
            has_class ''materia__window--active''
              (query_in is_tabpanel (dynamicContentArea (snd (renderMateria_v3 i'' st''))) ! k)
              = (k = 0)
            \<and> attr ''aria-selected''
                (query_in (has_class ''materia__tab'')
                   (dynamicContentArea (snd (renderMateria_v3 i'' st''))) ! k)
              = Some (if k = 0 then ''true'' else ''false'')"
    unfolding panels tabs by (simp add: window_v3_query tab_v3_query)
next
  assume a: "find (\<lambda>x. subject_id x = i') (glossaryData_v1 st') = Some s"
  then show "query_in (has_class ''group'') (subjectArea (snd (renderMateria_v1 i' st')))
        = map renderGroup_v1 (groups s)"
    by (rule renderMateria_v1_flat)
  from a show "query_in is_tabpanel (subjectArea (snd (renderMateria_v1 i' st'))) = []"
    by (rule renderMateria_v1_flat)
qed

theorem windows_render_as_tab_panels_witness:
  "map (attr ''aria-hidden'')
     (query_in (has_class ''materia__tab-content'')
        (dynamicContent (snd (renderMateria_v2 ''S2'' (loaded_v2 windowed_doc)))))
     = [Some ''false'', None]
   \<and> map (attr ''aria-selected'')
       (query_in (has_class ''materia__tab-button'')
          (dynamicContent (snd (renderMateria_v2 ''S2'' (loaded_v2 windowed_doc)))))
     = [Some ''true'', Some ''false'']
   \<and> length (query_in (has_class ''group-section'')
         (dynamicContent (snd (renderMateria_v2 ''S1'' (loaded_v2 example_doc))))) = 1
   \<and> fst (renderMateria_v3 ''S2'' (loaded_v3 windowed_doc)) = None
   \<and> length (query_in is_tabpanel
         (dynamicContentArea (snd (renderMateria_v3 ''S2'' (loaded_v3 windowed_doc))))) = 2
   \<and> query_in is_tabpanel (subjectArea (snd (renderMateria_v1 ''S2'' (loaded_v1 windowed_doc)))) = []"
  using windows_render_as_tab_panels [where i = "''S2''" and st = "loaded_v2 windowed_doc"
      and m = windowed_subject
      and w = "\<lparr>window_id = ''w1'', window_title = ''Uno'', window_groups = [''GB'']\<rparr>"
      and ws = "[\<lparr>window_id = ''w2'', window_title = ''Dos'', window_groups = [''GA'']\<rparr>]"
      and j = "''S1''" and t = "loaded_v2 example_doc" and n = example_subject
      and i'' = "''S2''" and st'' = "loaded_v3 windowed_doc" and doc = windowed_doc
      and m'' = windowed_subject
      and ws'' = "[\<lparr>window_id = ''w1'', window_title = ''Uno'', window_groups = [''GB'']\<rparr>,
                   \<lparr>window_id = ''w2'', window_title = ''Dos'', window_groups = [''GA'']\<rparr>]"
      and i' = "''S2''" and st' = "loaded_v1 windowed_doc" and s = windowed_subject]
    windowed_facts example_facts
  by (auto dest: list_all2_lengthD)

text \<open>
  The claim as stated fails in variant 1: for a subject with two windows it builds no
  panel and lists both groups in one sequence.
\<close>

theorem windows_ignored_v1:
  "windows windowed_subject \<noteq> None
   \<and> query_in is_tabpanel (subjectArea (snd (renderMateria_v1 ''S2'' (loaded_v1 windowed_doc)))) = []
   \<and> map (attr ''id'')
       (query_in (has_class ''group'')
          (subjectArea (snd (renderMateria_v1 ''S2'' (loaded_v1 windowed_doc)))))
     = [Some ''GA'', Some ''GB'']"
proof -
  have found: "find (\<lambda>x. subject_id x = ''S2'') (glossaryData_v1 (loaded_v1 windowed_doc))
      = Some windowed_subject"
    by (simp add: windowed_facts)
  have "map (attr ''id'') (map renderGroup_v1 (groups windowed_subject)) = [Some ''GA'', Some ''GB'']"
    by (simp add: windowed_subject_def renderGroup_v1_def createEl_v1_def)
  then show ?thesis
    by (simp add: renderMateria_v1_flat [OF found] windowed_facts)
qed

section \<open>Images that fail to load\<close>

lemma card_v3_images_fail:
  "map (attr ''src'') (query_all is_img (images_fail (renderCard_v3 c g))) = [Some placeholder]"
  "textContent (images_fail (renderCard_v3 c g)) = textContent (renderCard_v3 c g)"
  "query_all (has_class ''card'') (images_fail (renderCard_v3 c g)) = [images_fail (renderCard_v3 c g)]"
  "images_fail (images_fail (renderCard_v3 c g)) = images_fail (renderCard_v3 c g)"
  by (simp_all add: renderCard_v3_def card_actions_v3_def thumbnail_v3_def query_all_Element)

text \<open>
  Claim C8, as the code has it. Variant 1: when the path is not cached and its probe
  fails (a response that is not \<^verbatim>\<open>ok\<close>, or a rejected request), \<^verbatim>\<open>safeImageUrl\<close>
  returns the placeholder and caches it, and the image element gets the placeholder as
  its source; the promise never rejects. Variant 3: when the images of a card fail to
  load, the source of its thumbnail becomes the placeholder, the card is still a card
  with the same text, and a second failure changes nothing.
\<close>

theorem failed_image_falls_back:
  "(imageCache st path = None \<and> probe \<noteq> HeadOk \<longrightarrow>
      fst (safeImageUrl_v1 probe path st) = Str placeholder
      \<and> imageCache (snd (safeImageUrl_v1 probe path st)) path = Some (Str placeholder)
      \<and> fst (settle_image member_text probe path st imageFront)
          = setAttribute ''src'' placeholder imageFront)
   \<and> map (attr ''src'') (query_all is_img (images_fail (renderCard_v3 c g))) = [Some placeholder]
   \<and> textContent (images_fail (renderCard_v3 c g)) = textContent (renderCard_v3 c g)
   \<and> query_all (has_class ''card'') (images_fail (renderCard_v3 c g))
       = [images_fail (renderCard_v3 c g)]
   \<and> images_fail (images_fail (renderCard_v3 c g)) = images_fail (renderCard_v3 c g)"
proof (intro conjI impI)
  assume a: "imageCache st path = None \<and> probe \<noteq> HeadOk"
  then show "fst (safeImageUrl_v1 probe path st) = Str placeholder"
    by (simp add: safeImageUrl_v1_def Let_def)
  from a show "imageCache (snd (safeImageUrl_v1 probe path st)) path = Some (Str placeholder)"
    by (simp add: safeImageUrl_v1_def Let_def)
  from a show "fst (settle_image member_text probe path st imageFront)
      = setAttribute ''src'' placeholder imageFront"
    by (simp add: settle_image_def safeImageUrl_v1_def Let_def)
qed (rule card_v3_images_fail)+

theorem failed_image_falls_back_witness:
  "imageCache page_v1_init ''http://host/assets/images/c1.png'' = None
   \<and> fst (safeImageUrl_v1 HeadRejected ''http://host/assets/images/c1.png'' page_v1_init)
       = Str ''assets/images/placeholder.png''
   \<and> fst (settle_image (\<lambda>name. name) HeadNotOk ''http://host/assets/images/c1.png''
             page_v1_init
             (Element ''img'' [(''class'', ''card__image''), (''src'', ''assets/images/c1.png''),
                               (''alt'', ''hola'')] []))
       = Element ''img'' [(''class'', ''card__image''),
                          (''src'', ''assets/images/placeholder.png''), (''alt'', ''hola'')] []"
  using failed_image_falls_back [where st = page_v1_init
      and path = "''http://host/assets/images/c1.png''" and probe = HeadRejected]
    failed_image_falls_back [where st = page_v1_init
      and path = "''http://host/assets/images/c1.png''" and probe = HeadNotOk
      and member_text = "\<lambda>name. name"
      and imageFront = "Element ''img'' [(''class'', ''card__image''),
                          (''src'', ''assets/images/c1.png''), (''alt'', ''hola'')] []"]
  by (simp add: page_v1_init_def placeholder_def empty_object_def inherited_names_def)

text \<open>
  The claim as stated fails in variant 2: its \<^verbatim>\<open>safeImageUrl\<close> probes nothing and returns
  the prefixed path, and the images of its cards have no fallback, so they keep the
  missing source.
\<close>

theorem no_fallback_v2:
  "safeImageUrl_v2 ''c1.png'' = ''assets/images/c1.png''
   \<and> safeImageUrl_v2 ''c1.png'' \<noteq> placeholder
   \<and> map (attr ''src'') (query_all is_img (images_fail (renderCard_v2 example_card ''S1'')))
       = [Some ''assets/images/c1.png'', Some ''assets/images/c1.png'']"
  by (simp add: safeImageUrl_v2_def placeholder_def renderCard_v2_def card_controls_v2_def
      example_card_def query_all_Element Let_def)

section \<open>A load that fails\<close>

text \<open>
  In variants 1 and 2 a failed first load shows the message, and the document stays the
  empty array the scripts start with, in which nothing is found.
\<close>

lemma failed_load_v1:
  "load_failed outcome \<Longrightarrow>
     loadData_v1 outcome page_v1_init
       = ([], page_v1_init\<lparr>fetches_v1 := 1,
               console_v1 := [''Error al cargar los datos del glosario:''],
               subjectArea := [error_message_v1]\<rparr>)"
  by (auto simp: load_failed_def loadData_v1_def page_v1_init_def Let_def
      split: fetch_outcome.splits body.splits bool.splits)

lemma failed_load_v2:
  "load_failed outcome \<Longrightarrow>
     loadData_v2 outcome page_v2_init
       = page_v2_init\<lparr>fetches_v2 := 1, console_v2 := [''Error al cargar los datos:''],
               dynamicContent := [error_message_v2]\<rparr>"
  by (auto simp: load_failed_def loadData_v2_def page_v2_init_def Let_def
      split: fetch_outcome.splits body.splits bool.splits)

lemma empty_document_finds_nothing:
  "uniqueResults_v1 q [] = []" "searchGlossary q [] = []"
  by (simp_all add: search_v1_defs search_v2_defs)

text \<open>
  Claim C9 at a failing load of variant 3: the rejected request is answered with \<open>[]\<close>
  and the message is shown, but the cache stays \<^verbatim>\<open>null\<close>; the next search of two
  characters or more and the next render throw a TypeError instead of showing nothing.
\<close>

theorem failed_load_breaks_later_operations_v3:
  "fst (loadData_v3 Rejected page_v3_init) = []
   \<and> glossaryData_v3 (snd (loadData_v3 Rejected page_v3_init)) = None
   \<and> dynamicContentArea (snd (loadData_v3 Rejected page_v3_init)) = [error_message_v3]
   \<and> handleSearch_v3 ''hola'' (glossaryData_v3 (snd (loadData_v3 Rejected page_v3_init))) ui_v3
       = Inl TypeError
   \<and> fst (renderMateria_v3 ''S1'' (snd (loadData_v3 Rejected page_v3_init))) = Some TypeError"
  by (simp add: loadData_v3_def page_v3_init_def handleSearch_v3_def renderMateria_v3_def
      str_eval)

end
